theory Spec2Isabelle
  imports Main "HOL-Library.List_Lexorder" "HOL-Library.Char_ord"
begin

section \<open>Python values used by the two scripts\<close>

text \<open>
  A Python \<open>str\<close> is modelled as a \<open>string\<close>: one \<open>char\<close> per code point, for the
  code points below 256. On that range the regular-expression class \<open>\d\<close> is exactly
  the ten ASCII digits, and \<open>str.strip()\<close> removes exactly the characters of
  \<open>is_space\<close>. The emoji of the fixed messages (code points above 255) are written as
  their UTF-8 bytes; no length or slice is ever taken of a fixed message. Python integers
  are unbounded, hence \<open>int\<close>.
\<close>

datatype error =
    GithubException
  | KeyError
  | ValueError
  | TypeError
  | AttributeError
  | IndexError
  | YAMLError
  | JSONDecodeError
  | OtherError string

text \<open>
  What \<open>yaml.safe_load\<close> can return: \<open>None\<close>, a bool, an int, a str, a list, a dict
  (insertion-ordered association list) or some other Python object (float, date, bytes,
  set), of which only the truth value matters here.
\<close>

datatype yaml_value =
    YNone
  | YBool bool
  | YInt int
  | YStr string
  | YList "yaml_value list"
  | YDict "(yaml_value \<times> yaml_value) list"
  | YOther bool

text \<open>Python truthiness, as used by \<open>x or y\<close>.\<close>

fun truthy :: "yaml_value \<Rightarrow> bool" where
  "truthy YNone = False"
| "truthy (YBool b) = b"
| "truthy (YInt n) = (n \<noteq> 0)"
| "truthy (YStr s) = (s \<noteq> [])"
| "truthy (YList xs) = (xs \<noteq> [])"
| "truthy (YDict kvs) = (kvs \<noteq> [])"
| "truthy (YOther b) = b"

text \<open>\<open>d.get(k, default)\<close> on a dict.\<close>

definition dict_get :: "(yaml_value \<times> yaml_value) list \<Rightarrow> yaml_value \<Rightarrow> yaml_value \<Rightarrow> yaml_value" where
  "dict_get kvs k dflt = (case map_of kvs k of Some v \<Rightarrow> v | None \<Rightarrow> dflt)"

subsection \<open>Strings\<close>

definition startswith :: "string \<Rightarrow> string \<Rightarrow> bool" where
  "startswith s p = (take (length p) s = p)"

definition endswith :: "string \<Rightarrow> string \<Rightarrow> bool" where
  "endswith s p = (length p \<le> length s \<and> drop (length s - length p) s = p)"

text \<open>The characters below 256 for which \<open>str.isspace()\<close> holds.\<close>

definition is_space :: "char \<Rightarrow> bool" where
  "is_space c = (c \<in> set [CHR 0x09, CHR 0x0A, CHR 0x0B, CHR 0x0C, CHR 0x0D, CHR 0x1C, CHR 0x1D,
                           CHR 0x1E, CHR 0x1F, CHR 0x20, CHR 0x85, CHR 0xA0])"

definition lstrip :: "string \<Rightarrow> string" where
  "lstrip s = dropWhile is_space s"

definition rstrip :: "string \<Rightarrow> string" where
  "rstrip s = rev (dropWhile is_space (rev s))"

definition strip :: "string \<Rightarrow> string" where
  "strip s = rstrip (lstrip s)"

text \<open>\<open>sep.join(xs)\<close>.\<close>

fun str_join :: "string \<Rightarrow> string list \<Rightarrow> string" where
  "str_join sep [] = []"
| "str_join sep [x] = x"
| "str_join sep (x # y # ys) = x @ sep @ str_join sep (y # ys)"

text \<open>
  The first occurrence of a non-empty separator, scanning from the left: the text before
  it and the text after it.
\<close>

fun partition_at :: "string \<Rightarrow> string \<Rightarrow> (string \<times> string) option" where
  "partition_at sep [] = None"
| "partition_at sep (c # cs) =
     (if startswith (c # cs) sep then Some ([], drop (length sep) (c # cs))
      else (case partition_at sep cs of
              None \<Rightarrow> None
            | Some (before, after) \<Rightarrow> Some (c # before, after)))"

text \<open>\<open>s.split(sep, maxsplit)\<close> for a non-empty separator.\<close>

fun str_split :: "string \<Rightarrow> string \<Rightarrow> nat \<Rightarrow> string list" where
  "str_split s sep 0 = [s]"
| "str_split s sep (Suc n) =
     (case partition_at sep s of
        None \<Rightarrow> [s]
      | Some (before, after) \<Rightarrow> before # str_split after sep n)"

subsection \<open>Integers and their text\<close>

definition is_digit :: "char \<Rightarrow> bool" where
  "is_digit c = (c \<in> set ''0123456789'')"

definition digit_val :: "char \<Rightarrow> int" where
  "digit_val c = int (of_char c) - 48"

text \<open>
  \<open>int(s)\<close> for a string \<open>s\<close> that consists of decimal digits only (and is shorter than
  the interpreter's limit on the digits of an integer, 4300 by default).
\<close>

definition int_of_digits :: "string \<Rightarrow> int" where
  "int_of_digits ds = foldl (\<lambda>acc c. 10 * acc + digit_val c) 0 ds"

text \<open>A digit, then any number of groups of an optional underscore and a digit.\<close>

fun digits_underscores :: "string \<Rightarrow> bool" where
  "digits_underscores [] = False"
| "digits_underscores [c] = is_digit c"
| "digits_underscores (c # d # cs) =
     (is_digit c \<and> (if d = CHR ''_'' then digits_underscores cs else digits_underscores (d # cs)))"

text \<open>
  \<open>int(x)\<close> for a string. The conversion skips, at both ends, the six ASCII whitespace
  characters and the whitespace characters above 126 (of the characters below 256: U+0085
  and U+00A0); unlike \<open>str.strip()\<close> it does not skip U+001C to U+001F. A sign is allowed;
  anything else than a decimal literal raises \<open>ValueError\<close>, and so does a literal with
  more digits than the interpreter's limit, 4300 by default.
\<close>

definition is_int_space :: "char \<Rightarrow> bool" where
  "is_int_space c =
     (c \<in> set [CHR 0x09, CHR 0x0A, CHR 0x0B, CHR 0x0C, CHR 0x0D, CHR 0x20, CHR 0x85, CHR 0xA0])"

definition int_max_str_digits :: nat where
  "int_max_str_digits = 4300"

definition py_int :: "string \<Rightarrow> error + int" where
  "py_int s =
     (let t = rev (dropWhile is_int_space (rev (dropWhile is_int_space s)));
          negative = startswith t ''-'';
          body = (if startswith t ''-'' \<or> startswith t ''+'' then drop 1 t else t)
      in if digits_underscores body \<and> length (filter is_digit body) \<le> int_max_str_digits
         then Inr ((if negative then - 1 else 1) * int_of_digits (filter is_digit body))
         else Inl ValueError)"

text \<open>\<open>int(x)\<close> for the result of \<open>os.environ.get\<close>: \<open>int(None)\<close> raises \<open>TypeError\<close>.\<close>

definition py_int_opt :: "string option \<Rightarrow> error + int" where
  "py_int_opt x = (case x of None \<Rightarrow> Inl TypeError | Some s \<Rightarrow> py_int s)"

text \<open>The decimal digits of a natural number, most significant first.\<close>

definition digit_char :: "nat \<Rightarrow> char" where
  "digit_char d = ''0123456789'' ! d"

fun nat_digits :: "nat \<Rightarrow> string" where
  "nat_digits n =
     (if n < 10 then [digit_char n]
      else nat_digits (n div 10) @ [digit_char (n mod 10)])"

declare nat_digits.simps [simp del]

text \<open>\<open>str(i)\<close>, also what an f-string field \<open>{i}\<close> gives.\<close>

definition py_str_int :: "int \<Rightarrow> string" where
  "py_str_int i = (if i < 0 then ''-'' @ nat_digits (nat (- i)) else nat_digits (nat i))"

definition zfill :: "nat \<Rightarrow> string \<Rightarrow> string" where
  "zfill w s = replicate (w - length s) CHR ''0'' @ s"

text \<open>The f-string field \<open>{i:04d}\<close>: zero padding to width 4, the sign counted in.\<close>

definition format_04d :: "int \<Rightarrow> string" where
  "format_04d i =
     (if i < 0 then ''-'' @ zfill 3 (nat_digits (nat (- i))) else zfill 4 (nat_digits (nat i)))"

section \<open>Collaborators and effects\<close>

text \<open>
  The hosting API and the inference API are outside the repository. A collaborator is a
  record of response functions, one per operation the scripts use; a response is the
  returned value or the exception raised. A run of a script function yields the ordered
  trace of what it printed and which operations it called, and its result or the
  exception that ended it.
\<close>

record item =
  name :: string
  item_type :: string

text \<open>
  \<open>repo.get_contents\<close> gives one file (here: its \<open>decoded_content.decode("utf-8")\<close>)
  or the listing of a directory.
\<close>

datatype contents = ContentFile string | ContentDir "item list"

record changed_file =
  filename :: string

record pull_request =
  pr_title :: string
  head_sha :: string
  files :: "changed_file list"

text \<open>
  A chat completion request with its single user message; the temperature is kept as
  the decimal literal of the source. The response is the list of choices, each with its
  message content (or \<open>None\<close>).
\<close>

record chat_request =
  req_model :: string
  req_content :: string
  req_max_tokens :: nat
  req_temperature :: string

type_synonym inference_client = "chat_request \<Rightarrow> error + string option list"

record github =
  get_repo :: "string \<Rightarrow> error + unit"
  get_contents :: "string \<Rightarrow> string option \<Rightarrow> error + contents"
  get_branch :: "string \<Rightarrow> error + string"
  create_git_ref :: "string \<Rightarrow> string \<Rightarrow> error + unit"
  create_file :: "string \<Rightarrow> string \<Rightarrow> string \<Rightarrow> string \<Rightarrow> error + unit"
  create_pull :: "string \<Rightarrow> string \<Rightarrow> string \<Rightarrow> string \<Rightarrow> bool \<Rightarrow> error + string"
  get_pull :: "int \<Rightarrow> error + pull_request"
  create_issue_comment :: "string \<Rightarrow> error + unit"

datatype call =
    GetRepo string
  | GetContents string "string option"
  | GetBranch string
  | CreateGitRef string string
  | CreateFile string string string string
  | CreatePull string string string string bool
  | GetPull int
  | GetFiles
  | CreateIssueComment string
  | ChatCompletion chat_request

datatype event = Print string | Call call

type_synonym 'a run = "event list \<times> (error + 'a)"

definition ret :: "'a \<Rightarrow> 'a run" where
  "ret x = ([], Inr x)"

definition raise :: "error \<Rightarrow> 'a run" where
  "raise e = ([], Inl e)"

definition print :: "string \<Rightarrow> unit run" where
  "print s = ([Print s], Inr ())"

definition call :: "call \<Rightarrow> error + 'a \<Rightarrow> 'a run" where
  "call c response = ([Call c], response)"

text \<open>A run after the trace \<open>t\<close>.\<close>

definition prepend :: "event list \<Rightarrow> 'a run \<Rightarrow> 'a run" where
  "prepend t m = (t @ fst m, snd m)"

text \<open>Sequencing: an exception ends the run, the trace so far is kept.\<close>

definition bind_run :: "'a run \<Rightarrow> ('a \<Rightarrow> 'b run) \<Rightarrow> 'b run" where
  "bind_run m f =
     (case m of
        (t, Inl e) \<Rightarrow> (t, Inl e)
      | (t, Inr x) \<Rightarrow> prepend t (f x))"

definition calls_of :: "event list \<Rightarrow> call list" where
  "calls_of t = concat (map (\<lambda>e. case e of Call c \<Rightarrow> [c] | Print _ \<Rightarrow> []) t)"

definition prints_of :: "event list \<Rightarrow> string list" where
  "prints_of t = concat (map (\<lambda>e. case e of Print s \<Rightarrow> [s] | Call _ \<Rightarrow> []) t)"

fun is_chat_call :: "call \<Rightarrow> bool" where
  "is_chat_call (ChatCompletion _) = True"
| "is_chat_call _ = False"

fun is_comment_call :: "call \<Rightarrow> bool" where
  "is_comment_call (CreateIssueComment _) = True"
| "is_comment_call _ = False"

text \<open>\<open>resp.choices[0].message.content\<close>, on which a string method is then called.\<close>

definition first_content :: "string option list \<Rightarrow> string run" where
  "first_content choices =
     (case choices of
        [] \<Rightarrow> raise IndexError
      | None # _ \<Rightarrow> raise AttributeError
      | Some text # _ \<Rightarrow> ret text)"

section \<open>blog\_agent.py\<close>

definition POSTS_DIR :: string where
  "POSTS_DIR = ''posts''"

definition MAIN_BRANCH :: string where
  "MAIN_BRANCH = ''main''"

definition MODEL_ID :: string where
  "MODEL_ID = ''mistralai/Mistral-7B-Instruct-v0.3''"

definition POST_FILENAME :: string where
  "POST_FILENAME = ''README.md''"

subsection \<open>parse\_frontmatter\<close>

text \<open>
  \<open>yaml.safe_load\<close> is a library function: it is a parameter, giving for each text the
  value or the exception. Only \<open>yaml.YAMLError\<close> is caught.
\<close>

definition parse_frontmatter :: "(string \<Rightarrow> error + yaml_value) \<Rightarrow> string \<Rightarrow> error + yaml_value" where
  "parse_frontmatter safe_load content =
     (if \<not> startswith content ''---'' then Inr (YDict [])
      else
        let parts = str_split content ''---'' 2 in
        if length parts < 3 then Inr (YDict [])
        else
          (case safe_load (parts ! 1) of
             Inr v \<Rightarrow> Inr (if truthy v then v else YDict [])
           | Inl YAMLError \<Rightarrow> Inr (YDict [])
           | Inl e \<Rightarrow> Inl e))"

subsection \<open>get\_existing\_posts\<close>

text \<open>
  The dictionaries that \<open>get_existing_posts\<close> appends: always the same five keys, the
  last four holding whatever the front matter gave.
\<close>

record post =
  dirname :: string
  title :: yaml_value
  tags :: yaml_value
  categories :: yaml_value
  description :: yaml_value

definition post_path :: "item \<Rightarrow> string" where
  "post_path it = POSTS_DIR @ ''/'' @ name it @ ''/'' @ POST_FILENAME"

text \<open>
  The body of the \<open>try\<close> in the loop. \<open>fm.get\<close> exists only on a dict; a directory listing
  has no \<open>decoded_content\<close>.
\<close>

definition read_post :: "github \<Rightarrow> (string \<Rightarrow> error + yaml_value) \<Rightarrow> item \<Rightarrow> post run" where
  "read_post gh safe_load it =
     bind_run (call (GetContents (post_path it) None) (get_contents gh (post_path it) None)) (\<lambda>f.
       case f of
         ContentDir _ \<Rightarrow> raise AttributeError
       | ContentFile text \<Rightarrow>
           (case parse_frontmatter safe_load text of
              Inl e \<Rightarrow> raise e
            | Inr (YDict fm) \<Rightarrow>
                ret \<lparr>dirname = name it,
                     title = dict_get fm (YStr ''title'') (YStr (name it)),
                     tags = dict_get fm (YStr ''tags'') (YList []),
                     categories = dict_get fm (YStr ''categories'') (YList []),
                     description = dict_get fm (YStr ''description'') (YStr [])\<rparr>
            | Inr _ \<Rightarrow> raise AttributeError))"

text \<open>The \<open>for\<close> loop, over the sorted items, with the list \<open>posts\<close> it appends to.\<close>

fun posts_loop :: "github \<Rightarrow> (string \<Rightarrow> error + yaml_value) \<Rightarrow> item list \<Rightarrow> post list \<Rightarrow> post list run" where
  "posts_loop gh safe_load [] posts = ret posts"
| "posts_loop gh safe_load (it # items) posts =
     (if item_type it \<noteq> ''dir'' then posts_loop gh safe_load items posts
      else
        (case read_post gh safe_load it of
           (t, Inr p) \<Rightarrow> prepend t (posts_loop gh safe_load items (posts @ [p]))
         | (t, Inl GithubException) \<Rightarrow> prepend t (posts_loop gh safe_load items posts)
         | (t, Inl e) \<Rightarrow> (t, Inl e)))"

definition get_existing_posts :: "github \<Rightarrow> (string \<Rightarrow> error + yaml_value) \<Rightarrow> post list run" where
  "get_existing_posts gh safe_load =
     (case call (GetContents POSTS_DIR None) (get_contents gh POSTS_DIR None) of
        (t, Inl GithubException) \<Rightarrow>
          (t @ [Print (''  '' @
                       [CHR 0xE2, CHR 0x9A, CHR 0xA0, CHR 0xEF, CHR 0xB8, CHR 0x8F] @
                       ''  Diret'' @ [CHR 0xF3] @ ''rio '' @ [CHR 0x27] @ POSTS_DIR @
                  [CHR 0x27] @ '' n'' @ [CHR 0xE3] @ ''o encontrado. Iniciando do zero.'')],
           Inr [])
      | (t, Inl e) \<Rightarrow> (t, Inl e)
      | (t, Inr (ContentFile _)) \<Rightarrow> (t, Inl TypeError)
      | (t, Inr (ContentDir items)) \<Rightarrow>
          prepend t (posts_loop gh safe_load (sort_key name items) []))"

subsection \<open>get\_next\_number\<close>

text \<open>
  \<open>re.match(r"^(\d+)", s)\<close>: the group is the longest run of digits at the start of
  \<open>s\<close>; there is no match when that run is empty.
\<close>

definition match_leading_digits :: "string \<Rightarrow> string option" where
  "match_leading_digits s =
     (let g = takeWhile is_digit s in if g = [] then None else Some g)"

text \<open>The \<open>for\<close> loop of \<open>get_next_number\<close>, with the list \<open>numbers\<close> it appends to.\<close>

fun collect_numbers :: "post list \<Rightarrow> int list \<Rightarrow> int list" where
  "collect_numbers [] numbers = numbers"
| "collect_numbers (p # ps) numbers =
     (case match_leading_digits (dirname p) of
        Some g \<Rightarrow> collect_numbers ps (numbers @ [int_of_digits g])
      | None \<Rightarrow> collect_numbers ps numbers)"

text \<open>\<open>max(xs, default=d)\<close>.\<close>

definition max_default :: "int list \<Rightarrow> int \<Rightarrow> int" where
  "max_default xs d = (case xs of [] \<Rightarrow> d | x # rest \<Rightarrow> foldl max x rest)"

definition get_next_number :: "post list \<Rightarrow> int" where
  "get_next_number posts = max_default (collect_numbers posts []) 0 + 1"

subsection \<open>choose\_next\_topic\<close>

text \<open>
  \<open>re.sub(r"^```(?:json)?\n?", "", raw)\<close>: without the multi-line flag \<open>^\<close> matches at
  the start of the string only, so at most one match is replaced: three backquotes, then
  \<open>json\<close> if it follows, then one newline if it follows.
\<close>

definition sub_leading_fence :: "string \<Rightarrow> string" where
  "sub_leading_fence raw =
     (if startswith raw ''```'' then
        (let r1 = drop 3 raw;
             r2 = (if startswith r1 ''json'' then drop 4 r1 else r1)
         in if startswith r2 ''\<newline>'' then drop 1 r2 else r2)
      else raw)"

text \<open>
  \<open>re.sub(r"\n?```$", "", raw)\<close>: \<open>$\<close> matches at the end of the string and just before
  a newline that ends the string. The three backquotes of a match are therefore the last
  three characters, or the three before a final newline; in both cases one newline in
  front of them belongs to the match, and there is at most one match.
\<close>

definition chop_newline :: "string \<Rightarrow> string" where
  "chop_newline s = (if endswith s ''\<newline>'' then butlast s else s)"

definition sub_trailing_fence :: "string \<Rightarrow> string" where
  "sub_trailing_fence raw =
     (if endswith raw ''```'' then chop_newline (take (length raw - 3) raw)
      else if endswith raw ''```\<newline>'' then chop_newline (take (length raw - 4) raw) @ ''\<newline>''
      else raw)"

text \<open>
  Lines 125 to 134 of \<open>choose_next_topic\<close>: the request, the first choice, the removal
  of the code fence and the decoding. The prompt (a text built from the posts) is an
  argument; \<open>json.loads\<close> is a library function and a parameter, giving for each text the
  decoded value or the exception.
\<close>

definition choose_next_topic :: "(string \<Rightarrow> error + 'j) \<Rightarrow> inference_client \<Rightarrow> string \<Rightarrow> 'j run" where
  "choose_next_topic json_loads client prompt =
     (let req = \<lparr>req_model = MODEL_ID, req_content = prompt, req_max_tokens = 600,
                  req_temperature = ''0.7''\<rparr>
      in bind_run (call (ChatCompletion req) (client req)) (\<lambda>choices.
         bind_run (first_content choices) (\<lambda>text.
           let raw = strip text;
               raw = sub_leading_fence raw;
               raw = sub_trailing_fence raw
           in ([], json_loads raw))))"

subsection \<open>create\_pull\_request\<close>

text \<open>
  A topic proposal with the fields that \<open>create_pull_request\<close> reads. The clock is a
  parameter: \<open>strftime_now fmt\<close> is \<open>datetime.now().strftime(fmt)\<close>.
\<close>

record topic =
  topic_title :: string
  slug :: string
  topic_description :: string
  topic_tags :: "string list"

definition pr_body :: "topic \<Rightarrow> string \<Rightarrow> string \<Rightarrow> string" where
  "pr_body tp file_path today_br =
     ''\<newline>'' @ ''## '' @ [CHR 0xF0, CHR 0x9F, CHR 0xA4, CHR 0x96] @
     '' Post gerado automaticamente pelo Blog Agent\<newline>'' @ ''\<newline>'' @
     ''| Campo | Valor |\<newline>'' @ ''|-------|-------|\<newline>'' @ ''| **T'' @
     [CHR 0xED] @ ''tulo** | '' @
     topic_title tp @
     '' |\<newline>'' @ ''| **Arquivo** | `'' @
     file_path @
     ''` |\<newline>'' @ ''| **Tags** | '' @
     str_join '', '' (map (\<lambda>t. ''`'' @ t @ ''`'') (topic_tags tp)) @
     '' |\<newline>'' @ ''| **Gerado em** | '' @
     today_br @
     '' |\<newline>'' @ ''\<newline>'' @ ''### '' @
     [CHR 0xF0, CHR 0x9F, CHR 0x93, CHR 0x9D] @ '' Descri'' @ [CHR 0xE7, CHR 0xE3] @
     ''o\<newline>'' @
     topic_description tp @
     ''\<newline>'' @ ''\<newline>'' @ ''---\<newline>'' @ ''> '' @
     [CHR 0xE2, CHR 0x9A, CHR 0xA0, CHR 0xEF, CHR 0xB8, CHR 0x8F] @ '' **Revis'' @
     [CHR 0xE3] @ ''o obrigat'' @ [CHR 0xF3] @ ''ria antes do merge:**\<newline>'' @
     ''> - [ ] Precis'' @ [CHR 0xE3] @ ''o t'' @ [CHR 0xE9] @ ''cnica do conte'' @
     [CHR 0xFA] @ ''do Rust\<newline>'' @ ''> - [ ] Exemplos de c'' @ [CHR 0xF3] @
     ''digo compilam corretamente\<newline>'' @ ''> - [ ] Linguagem adequada ao p'' @
     [CHR 0xFA] @ ''blico-alvo\<newline>'' @
     ''> - [ ] Frontmatter correto (tags, slug, data)\<newline>''"

definition create_pull_request :: "github \<Rightarrow> (string \<Rightarrow> string) \<Rightarrow> int \<Rightarrow> topic \<Rightarrow> string \<Rightarrow> string run" where
  "create_pull_request gh strftime_now post_number tp content =
     (let dir_name = format_04d post_number @ ''-'' @ slug tp;
          file_path = POSTS_DIR @ ''/'' @ dir_name @ ''/'' @ POST_FILENAME;
          branch = ''agent/post-'' @ strftime_now ''%Y%m%d'' @ ''-'' @ slug tp;
          today_br = strftime_now ''%d/%m/%Y''
      in bind_run (call (GetBranch MAIN_BRANCH) (get_branch gh MAIN_BRANCH)) (\<lambda>base_sha.
         bind_run (call (CreateGitRef (''refs/heads/'' @ branch) base_sha)
                     (create_git_ref gh (''refs/heads/'' @ branch) base_sha)) (\<lambda>_.
         bind_run (print (''  '' @ [CHR 0xF0, CHR 0x9F, CHR 0x8C, CHR 0xBF] @
                          '' Branch criada: '' @ branch)) (\<lambda>_.
         bind_run (call (CreateFile file_path (''feat(blog): add post '' @ dir_name) content branch)
                     (create_file gh file_path (''feat(blog): add post '' @ dir_name) content branch)) (\<lambda>_.
         bind_run (print (''  '' @ [CHR 0xF0, CHR 0x9F, CHR 0x93, CHR 0x84] @
                          '' Arquivo criado: '' @ file_path)) (\<lambda>_.
         call (CreatePull MAIN_BRANCH branch (''[Blog Agent] '' @ topic_title tp)
                 (pr_body tp file_path today_br) False)
              (create_pull gh MAIN_BRANCH branch (''[Blog Agent] '' @ topic_title tp)
                 (pr_body tp file_path today_br) False)))))))"

section \<open>pr\_reviewer.py\<close>

subsection \<open>Configuration read at start-up\<close>

text \<open>The process environment is a map from names to values; \<open>os.environ[k]\<close>.\<close>

definition environ_item :: "(string \<rightharpoonup> string) \<Rightarrow> string \<Rightarrow> error + string" where
  "environ_item env k = (case env k of None \<Rightarrow> Inl KeyError | Some v \<Rightarrow> Inr v)"

text \<open>\<open>os.environ.get(k) or alternative\<close>: the value when it is set and not empty.\<close>

definition GITHUB_TOKEN :: "(string \<rightharpoonup> string) \<Rightarrow> error + string" where
  "GITHUB_TOKEN env =
     (case env ''GH_PAT'' of
        None \<Rightarrow> environ_item env ''GITHUB_TOKEN''
      | Some v \<Rightarrow> if v \<noteq> [] then Inr v else environ_item env ''GITHUB_TOKEN'')"

definition HF_TOKEN :: "(string \<rightharpoonup> string) \<Rightarrow> error + string" where
  "HF_TOKEN env = environ_item env ''HF_TOKEN''"

definition REPO_NAME :: "(string \<rightharpoonup> string) \<Rightarrow> error + string" where
  "REPO_NAME env = environ_item env ''GITHUB_REPOSITORY''"

definition PR_NUMBER :: "(string \<rightharpoonup> string) \<Rightarrow> error + int" where
  "PR_NUMBER env =
     (case environ_item env ''PR_NUMBER'' of Inl e \<Rightarrow> Inl e | Inr v \<Rightarrow> py_int v)"

definition reviewer_MODEL_ID :: "(string \<rightharpoonup> string) \<Rightarrow> string" where
  "reviewer_MODEL_ID env =
     (case env ''MODEL_ID'' of
        None \<Rightarrow> ''deepseek-ai/DeepSeek-V3-0324''
      | Some v \<Rightarrow> if v \<noteq> [] then v else ''deepseek-ai/DeepSeek-V3-0324'')"

text \<open>
  Lines 17 to 20: \<open>int(os.environ.get("CONTENT_MAX_TOKENS")) or 8192\<close> inside a \<open>try\<close>
  whose handler catches \<open>ValueError\<close> only.
\<close>

definition CONTENT_MAX_TOKENS :: "(string \<rightharpoonup> string) \<Rightarrow> error + int" where
  "CONTENT_MAX_TOKENS env =
     (case py_int_opt (env ''CONTENT_MAX_TOKENS'') of
        Inr n \<Rightarrow> Inr (if n \<noteq> 0 then n else 8192)
      | Inl ValueError \<Rightarrow> Inr 8192
      | Inl e \<Rightarrow> Inl e)"

record config =
  github_token :: string
  hf_token :: string
  repo_name :: string
  pr_number :: int
  model_id :: string
  content_max_tokens :: int

text \<open>The module-level assignments, in the order of the source; the first exception ends the start-up.\<close>

definition startup :: "(string \<rightharpoonup> string) \<Rightarrow> error + config" where
  "startup env =
     (case GITHUB_TOKEN env of Inl e \<Rightarrow> Inl e | Inr gt \<Rightarrow>
      case HF_TOKEN env of Inl e \<Rightarrow> Inl e | Inr ht \<Rightarrow>
      case REPO_NAME env of Inl e \<Rightarrow> Inl e | Inr rn \<Rightarrow>
      case PR_NUMBER env of Inl e \<Rightarrow> Inl e | Inr pn \<Rightarrow>
      case CONTENT_MAX_TOKENS env of Inl e \<Rightarrow> Inl e | Inr cm \<Rightarrow>
        Inr \<lparr>github_token = gt, hf_token = ht, repo_name = rn, pr_number = pn,
             model_id = reviewer_MODEL_ID env, content_max_tokens = cm\<rparr>)"

subsection \<open>The review\<close>

text \<open>\<open>REVIEW_PROMPT.format(content=c)\<close>: the template has the one field \<open>{content}\<close>.\<close>

definition REVIEW_PROMPT_before :: string where
  "REVIEW_PROMPT_before =
     ''\<newline>'' @ ''Voc'' @ [CHR 0xEA] @ '' '' @ [CHR 0xE9] @ '' um revisor t'' @
     [CHR 0xE9] @ ''cnico especializado em Rust e Python.\<newline>'' @
     ''Revise o post abaixo destinado ao blog '' @ [CHR 0x27] @ ''Desbravando Rust'' @
     [CHR 0x27] @ '', voltado para\<newline>'' @ ''programadores Python que est'' @
     [CHR 0xE3] @ ''o aprendendo Rust.\<newline>'' @ ''\<newline>'' @
     ''## Post para revisar:\<newline>''"

definition REVIEW_PROMPT_after :: string where
  "REVIEW_PROMPT_after =
     ''\<newline>'' @ ''\<newline>'' @ ''## O que avaliar e corrigir:\<newline>'' @
     ''\<newline>'' @ ''### '' @ [CHR 0xE2, CHR 0x9C, CHR 0x85] @ '' Precis'' @ [CHR 0xE3] @
     ''o T'' @ [CHR 0xE9] @ ''cnica\<newline>'' @ ''- Os exemplos de c'' @ [CHR 0xF3] @
     ''digo Rust est'' @ [CHR 0xE3] @ ''o corretos e compilariam sem erros?\<newline>'' @
     ''- Os conceitos de Rust est'' @ [CHR 0xE3] @
     ''o explicados corretamente?\<newline>'' @ ''- As compara'' @ [CHR 0xE7, CHR 0xF5] @
     ''es com Python s'' @ [CHR 0xE3] @ ''o precisas e justas?\<newline>'' @
     ''\<newline>'' @ ''### '' @ [CHR 0xF0, CHR 0x9F, CHR 0x93, CHR 0x96] @ '' Did'' @
     [CHR 0xE1] @ ''tica e Clareza\<newline>'' @ ''- A progress'' @ [CHR 0xE3] @
     ''o do conte'' @ [CHR 0xFA] @ ''do '' @ [CHR 0xE9] @ '' l'' @ [CHR 0xF3] @
     ''gica para um iniciante em Rust?\<newline>'' @
     ''- Algum conceito foi introduzido sem explica'' @ [CHR 0xE7, CHR 0xE3] @
     ''o adequada?\<newline>'' @
     ''- As analogias e exemplos ajudam a entender?\<newline>'' @ ''\<newline>'' @
     ''### '' @
     [CHR 0xF0, CHR 0x9F, CHR 0x87, CHR 0xA7, CHR 0xF0, CHR 0x9F, CHR 0x87, CHR 0xB7] @
     '' Linguagem\<newline>'' @ ''- O PT-BR est'' @ [CHR 0xE1] @
     '' correto e natural?\<newline>'' @ ''- O tom '' @ [CHR 0xE9] @ '' acess'' @
     [CHR 0xED] @ ''vel (n'' @ [CHR 0xE3] @ ''o muito t'' @ [CHR 0xE9] @ ''cnico, n'' @
     [CHR 0xE3] @ ''o muito b'' @ [CHR 0xE1] @ ''sico)?\<newline>'' @ ''\<newline>'' @
     ''### '' @ [CHR 0xF0, CHR 0x9F, CHR 0x94, CHR 0xA7] @ '' Sugest'' @ [CHR 0xF5] @
     ''es de Melhoria\<newline>'' @ ''- Quais se'' @ [CHR 0xE7, CHR 0xF5] @
     ''es poderiam ser expandidas?\<newline>'' @ ''- Algum exemplo de c'' @ [CHR 0xF3] @
     ''digo importante est'' @ [CHR 0xE1] @ '' faltando?\<newline>'' @ ''- H'' @
     [CHR 0xE1] @ '' algo que confundiria especialmente quem vem do Python?\<newline>'' @
     ''\<newline>'' @ ''## Formato da revis'' @ [CHR 0xE3] @ ''o:\<newline>'' @
     ''Estruture sua resposta em se'' @ [CHR 0xE7, CHR 0xF5] @ ''es com os t'' @
     [CHR 0xED] @ ''tulos acima.\<newline>'' @
     ''Para cada problema encontrado, cite o trecho espec'' @ [CHR 0xED] @
     ''fico e sugira a corre'' @ [CHR 0xE7, CHR 0xE3] @ ''o.\<newline>'' @
     ''Seja objetivo e construtivo. Ao final, d'' @ [CHR 0xEA] @
     '' uma nota geral de 1 a 10.\<newline>''"

definition REVIEW_PROMPT_format :: "string \<Rightarrow> string" where
  "REVIEW_PROMPT_format c = REVIEW_PROMPT_before @ c @ REVIEW_PROMPT_after"

text \<open>The \<open>for\<close> loop of \<open>get_post_content\<close>, which returns from inside at the first match.\<close>

fun get_post_content_loop :: "github \<Rightarrow> string \<Rightarrow> changed_file list \<Rightarrow> (string \<times> string) run" where
  "get_post_content_loop gh sha [] = ret ([], [])"
| "get_post_content_loop gh sha (f # fs) =
     (if startswith (filename f) ''posts/'' \<and> endswith (filename f) ''README.md'' then
        bind_run (call (GetContents (filename f) (Some sha)) (get_contents gh (filename f) (Some sha)))
          (\<lambda>content_file.
             case content_file of
               ContentFile text \<Rightarrow> ret (filename f, text)
             | ContentDir _ \<Rightarrow> raise AttributeError)
      else get_post_content_loop gh sha fs)"

definition get_post_content :: "github \<Rightarrow> pull_request \<Rightarrow> (string \<times> string) run" where
  "get_post_content gh pr =
     bind_run (call GetFiles (Inr (files pr))) (\<lambda>fs. get_post_content_loop gh (head_sha pr) fs)"

definition post_review_comment :: "github \<Rightarrow> string \<Rightarrow> string \<Rightarrow> unit run" where
  "post_review_comment gh filepath review =
     (let comment =
        ''## '' @ [CHR 0xF0, CHR 0x9F, CHR 0xA4, CHR 0x96] @ '' Revis'' @ [CHR 0xE3] @
        ''o Autom'' @ [CHR 0xE1] @ ''tica do Post\<newline>'' @ ''\<newline>'' @
        ''**Arquivo:** `'' @
        filepath @
        ''`\<newline>'' @ ''\<newline>'' @ ''---\<newline>'' @ ''\<newline>'' @
        review @
        ''\<newline>'' @ ''\<newline>'' @ ''---\<newline>'' @ ''*Revis'' @ [CHR 0xE3] @
        ''o gerada automaticamente. Aceite ou ignore as sugest'' @ [CHR 0xF5] @
        ''es conforme seu julgamento.*\<newline>''
      in call (CreateIssueComment comment) (create_issue_comment gh comment))"

definition pr_reviewer_main :: "config \<Rightarrow> github \<Rightarrow> inference_client \<Rightarrow> unit run" where
  "pr_reviewer_main cfg gh client =
     bind_run (print ([CHR 0xF0, CHR 0x9F, CHR 0x94, CHR 0x8D] @
                      '' PR Reviewer iniciando...\<newline>'')) (\<lambda>_.
     bind_run (call (GetRepo (repo_name cfg)) (get_repo gh (repo_name cfg))) (\<lambda>_.
     bind_run (call (GetPull (pr_number cfg)) (get_pull gh (pr_number cfg))) (\<lambda>pr.
     bind_run (print ([CHR 0xE2, CHR 0x9C, CHR 0x85] @ '' PR #'' @ py_str_int (pr_number cfg) @ '': '' @ pr_title pr @ ''\<newline>'')) (\<lambda>_.
     bind_run (print ([CHR 0xF0, CHR 0x9F, CHR 0x93, CHR 0x84] @ '' Lendo conte'' @
                      [CHR 0xFA] @ ''do do post...'')) (\<lambda>_.
     bind_run (get_post_content gh pr) (\<lambda>(filepath, content).
       if content = [] then
         print ([CHR 0xE2, CHR 0x9A, CHR 0xA0, CHR 0xEF, CHR 0xB8, CHR 0x8F] @
                ''  Nenhum README.md encontrado no PR. Abortando.'')
       else
         bind_run (print (''   '' @ [CHR 0xE2, CHR 0x9C, CHR 0x85] @ '' '' @ py_str_int (int (length content)) @
                     '' caracteres lidos\<newline>'')) (\<lambda>_.
         bind_run (print ([CHR 0xF0, CHR 0x9F, CHR 0xA4, CHR 0x94] @
                          '' Enviando para revis'' @ [CHR 0xE3] @ ''o pelo LLM...'')) (\<lambda>_.
         let req = \<lparr>req_model = model_id cfg,
                    req_content = REVIEW_PROMPT_format (take 12000 content),
                    req_max_tokens = 8192,
                    req_temperature = ''0.3''\<rparr>
         in bind_run (call (ChatCompletion req) (client req)) (\<lambda>choices.
            bind_run (first_content choices) (\<lambda>text.
            let review = strip text
            in bind_run (print (''   '' @ [CHR 0xE2, CHR 0x9C, CHR 0x85] @ '' '' @ py_str_int (int (length review)) @
                          '' caracteres de revis'' @ [CHR 0xE3] @ ''o gerados\<newline>'')) (\<lambda>_.
               bind_run (print ([CHR 0xF0, CHR 0x9F, CHR 0x92, CHR 0xAC] @
                                '' Publicando coment'' @ [CHR 0xE1] @ ''rio no PR...'')) (\<lambda>_.
               bind_run (post_review_comment gh filepath review) (\<lambda>_.
                 print (''\<newline>'' @ [CHR 0xF0, CHR 0x9F, CHR 0x8E, CHR 0x89] @
                        '' Revis'' @ [CHR 0xE3] @ ''o publicada no PR #'' @ py_str_int (pr_number cfg) @ ''!''))))))))))))))"

text \<open>The script: the module-level configuration, then \<open>main()\<close>.\<close>

definition pr_reviewer_script :: "(string \<rightharpoonup> string) \<Rightarrow> github \<Rightarrow> inference_client \<Rightarrow> unit run" where
  "pr_reviewer_script env gh client =
     (case startup env of Inl e \<Rightarrow> raise e | Inr cfg \<Rightarrow> pr_reviewer_main cfg gh client)"

section \<open>Notions of the specification\<close>




text \<open>A document contains two occurrences of the delimiter, one after the other.\<close>

definition has_two_delimiters :: "string \<Rightarrow> bool" where
  "has_two_delimiters content = (\<exists>a b c. content = a @ ''---'' @ b @ ''---'' @ c)"

text \<open>A subdirectory of the posts root that lacks the fixed-name document.\<close>

definition lacks_document :: "github \<Rightarrow> item \<Rightarrow> bool" where
  "lacks_document gh it =
     (item_type it = ''dir'' \<and> get_contents gh (post_path it) None = Inl GithubException)"

text \<open>The repository whose posts root lists the given items, all else unchanged.\<close>

definition with_listing :: "github \<Rightarrow> item list \<Rightarrow> github" where
  "with_listing gh items =
     gh\<lparr>get_contents :=
          (\<lambda>path ref. if path = POSTS_DIR \<and> ref = None then Inr (ContentDir items)
                       else get_contents gh path ref)\<rparr>"

text \<open>The pull request with no changed file, all else unchanged.\<close>

definition without_files :: "github \<Rightarrow> pull_request \<Rightarrow> github" where
  "without_files gh pr = gh\<lparr>get_pull := (\<lambda>_. Inr (pr\<lparr>files := []\<rparr>))\<rparr>"

text \<open>
  The test of \<open>get_post_content\<close> on a changed file, and the file name of a path: what
  follows its last slash.
\<close>

definition is_post_file :: "changed_file \<Rightarrow> bool" where
  "is_post_file f = (startswith (filename f) ''posts/'' \<and> endswith (filename f) ''README.md'')"

definition file_name :: "string \<Rightarrow> string" where
  "file_name path = rev (takeWhile (\<lambda>c. c \<noteq> CHR ''/'') (rev path))"

text \<open>
  The code-fence markers that topic-response parsing removes, the longer before the
  shorter: at the start three backquotes, then the tag \<open>json\<close> if it follows, then one
  newline if it follows; at the end one newline if there is one, then three backquotes.
  Removing a marker means removing the first of these forms that the text starts with, or
  ends with.
\<close>

definition leading_fence_markers :: "string list" where
  "leading_fence_markers = [''```json\<newline>'', ''```json'', ''```\<newline>'', ''```'']"

definition trailing_fence_markers :: "string list" where
  "trailing_fence_markers = [''\<newline>```'', ''```'']"

fun remove_first_prefix :: "string list \<Rightarrow> string \<Rightarrow> string" where
  "remove_first_prefix [] s = s"
| "remove_first_prefix (p # ps) s =
     (if startswith s p then drop (length p) s else remove_first_prefix ps s)"

fun remove_first_suffix :: "string list \<Rightarrow> string \<Rightarrow> string" where
  "remove_first_suffix [] s = s"
| "remove_first_suffix (p # ps) s =
     (if endswith s p then take (length s - length p) s else remove_first_suffix ps s)"


section \<open>Mock collaborators\<close>

text \<open>
  Collaborators for the concrete runs below: every hosting operation succeeds, the
  contents and the pull request are given; the inference answers with one choice of a
  given text; the clock stands at 2 January 2026.
\<close>

definition mock_github :: "(string \<Rightarrow> string option \<Rightarrow> error + contents) \<Rightarrow> pull_request \<Rightarrow> github" where
  "mock_github contents_of pr =
     \<lparr>get_repo = (\<lambda>_. Inr ()),
      get_contents = contents_of,
      get_branch = (\<lambda>_. Inr ''c0ffee''),
      create_git_ref = (\<lambda>_ _. Inr ()),
      create_file = (\<lambda>_ _ _ _. Inr ()),
      create_pull = (\<lambda>_ _ _ _ _. Inr ''https://github.com/o/r/pull/1''),
      get_pull = (\<lambda>_. Inr pr),
      create_issue_comment = (\<lambda>_. Inr ())\<rparr>"

definition reply_client :: "string \<Rightarrow> inference_client" where
  "reply_client text = (\<lambda>_. Inr [Some text])"

definition mock_clock :: "string \<Rightarrow> string" where
  "mock_clock fmt = (if fmt = ''%Y%m%d'' then ''20260102'' else ''02/01/2026'')"

definition intro_topic :: topic where
  "intro_topic =
     \<lparr>topic_title = ''Primeiros passos'', slug = ''intro'',
      topic_description = ''Um primeiro programa'', topic_tags = [''rust'', ''python'']\<rparr>"

text \<open>Contents: nothing exists; every path is a file with a given text.\<close>

definition no_contents :: "string \<Rightarrow> string option \<Rightarrow> error + contents" where
  "no_contents path ref = Inl GithubException"

definition file_contents :: "string \<Rightarrow> string \<Rightarrow> string option \<Rightarrow> error + contents" where
  "file_contents text path ref = Inr (ContentFile text)"

text \<open>
  A posts root with two post directories and one file; only the first directory holds
  the document.
\<close>

definition listing_contents :: "string \<Rightarrow> string option \<Rightarrow> error + contents" where
  "listing_contents path ref =
     (if path = ''posts'' then
        Inr (ContentDir [\<lparr>name = ''0002-b'', item_type = ''dir''\<rparr>,
                         \<lparr>name = ''0001-a'', item_type = ''dir''\<rparr>,
                         \<lparr>name = ''index.md'', item_type = ''file''\<rparr>])
      else if path = ''posts/0001-a/README.md'' then
        Inr (ContentFile ''---\<newline>title: A\<newline>---\<newline>Texto'')
      else Inl GithubException)"

text \<open>
  What \<open>yaml.safe_load\<close> gives on two texts: a mapping with the key \<open>title\<close>, and the
  plain scalar \<open>hello\<close>, which is a str.
\<close>

definition mock_safe_load :: "string \<Rightarrow> error + yaml_value" where
  "mock_safe_load s =
     (if s = ''\<newline>title: A\<newline>'' then Inr (YDict [(YStr ''title'', YStr ''A'')])
      else if s = ''\<newline>hello\<newline>'' then Inr (YStr ''hello'')
      else Inl YAMLError)"

text \<open>What \<open>json.loads\<close> gives on the text of a list of two numbers.\<close>

definition mock_json_loads :: "string \<Rightarrow> error + int list" where
  "mock_json_loads s = (if s = ''[1, 2]'' then Inr [1, 2] else Inl JSONDecodeError)"

text \<open>Pull requests: no changed file; changed files with and without a post document.\<close>

definition no_pull :: pull_request where
  "no_pull = \<lparr>pr_title = [], head_sha = [], files = []\<rparr>"

definition docs_pull :: pull_request where
  "docs_pull =
     \<lparr>pr_title = ''Docs'', head_sha = ''beef'',
      files = [\<lparr>filename = ''docs/notes.md''\<rparr>, \<lparr>filename = ''README.md''\<rparr>]\<rparr>"

definition intro_pull :: pull_request where
  "intro_pull =
     \<lparr>pr_title = ''[Blog Agent] Primeiros passos'', head_sha = ''beef'',
      files = [\<lparr>filename = ''docs/notes.md''\<rparr>,
               \<lparr>filename = ''posts/0001-intro/README.md''\<rparr>,
               \<lparr>filename = ''posts/0002-extra/README.md''\<rparr>]\<rparr>"

definition old_readme_pull :: pull_request where
  "old_readme_pull =
     \<lparr>pr_title = ''Arquivo'', head_sha = ''beef'',
      files = [\<lparr>filename = ''posts/0001-intro/OLD_README.md''\<rparr>]\<rparr>"

text \<open>The process environment with the required variables only.\<close>

definition mock_environ :: "string \<rightharpoonup> string" where
  "mock_environ =
     [''GITHUB_TOKEN'' \<mapsto> ''ghp'', ''HF_TOKEN'' \<mapsto> ''hf'',
      ''GITHUB_REPOSITORY'' \<mapsto> ''o/r'', ''PR_NUMBER'' \<mapsto> ''7'']"

text \<open>A configuration as the start-up gives it.\<close>

definition mock_config :: config where
  "mock_config =
     \<lparr>github_token = ''ghp'', hf_token = ''hf'', repo_name = ''o/r'', pr_number = 7,
      model_id = ''deepseek-ai/DeepSeek-V3-0324'', content_max_tokens = 8192\<rparr>"


section \<open>Properties of get\_next\_number\<close>








section \<open>Traces and runs\<close>

lemma prepend_pair: "prepend t (u, r) = (t @ u, r)"
  by (simp add: prepend_def)

lemma bind_run_Inr: "bind_run (t, Inr x) f = prepend t (f x)"
  by (simp add: bind_run_def)

lemma bind_run_Inl: "bind_run (t, Inl e) f = (t, Inl e)"
  by (simp add: bind_run_def)

lemma calls_of_simps:
  "calls_of [] = []"
  "calls_of (Call c # t) = c # calls_of t"
  "calls_of (Print s # t) = calls_of t"
  by (simp_all add: calls_of_def)

lemma prints_of_simps:
  "prints_of [] = []"
  "prints_of (Call c # t) = prints_of t"
  "prints_of (Print s # t) = s # prints_of t"
  by (simp_all add: prints_of_def)

lemma calls_of_append: "calls_of (t @ u) = calls_of t @ calls_of u"
  by (simp add: calls_of_def)

lemma prints_of_append: "prints_of (t @ u) = prints_of t @ prints_of u"
  by (simp add: prints_of_def)

lemmas run_simps =
  prepend_pair bind_run_Inr bind_run_Inl print_def call_def ret_def raise_def
  calls_of_simps prints_of_simps

section \<open>Properties of create\_pull\_request\<close>

lemma get_next_number_Nil: "get_next_number [] = 1"
  by (simp add: get_next_number_def max_default_def)

lemma format_04d_1: "format_04d 1 = ''0001''"
  by (simp add: format_04d_def zfill_def nat_digits.simps digit_char_def numeral_3_eq_3)

text \<open>
  C2. Given zero existing posts, a topic proposal with slug \<open>intro\<close> and a generated
  content, and collaborators whose four operations succeed, the publication step reads
  the tip commit of the main branch, creates one branch reference from that commit,
  creates one file at \<open>posts/0001-intro/README.md\<close> on that branch, and opens one pull
  request whose base is the main branch: these are its calls, in this order, and no
  others.
\<close>

theorem create_pull_request_first_post:
  fixes gh :: github and strftime_now :: "string \<Rightarrow> string" and tp :: topic and content :: string
  assumes "slug tp = ''intro''"
    and "get_branch gh ''main'' = Inr sha"
    and "create_git_ref gh (''refs/heads/agent/post-'' @ strftime_now ''%Y%m%d'' @ ''-intro'') sha
           = Inr ()"
    and "create_file gh ''posts/0001-intro/README.md'' ''feat(blog): add post 0001-intro''
           content (''agent/post-'' @ strftime_now ''%Y%m%d'' @ ''-intro'') = Inr ()"
    and "create_pull gh ''main'' (''agent/post-'' @ strftime_now ''%Y%m%d'' @ ''-intro'')
           (''[Blog Agent] '' @ topic_title tp)
           (pr_body tp ''posts/0001-intro/README.md'' (strftime_now ''%d/%m/%Y'')) False = Inr url"
  shows "calls_of (fst (create_pull_request gh strftime_now (get_next_number []) tp content)) =
           [GetBranch ''main'',
            CreateGitRef (''refs/heads/agent/post-'' @ strftime_now ''%Y%m%d'' @ ''-intro'') sha,
            CreateFile ''posts/0001-intro/README.md'' ''feat(blog): add post 0001-intro''
              content (''agent/post-'' @ strftime_now ''%Y%m%d'' @ ''-intro''),
            CreatePull ''main'' (''agent/post-'' @ strftime_now ''%Y%m%d'' @ ''-intro'')
              (''[Blog Agent] '' @ topic_title tp)
              (pr_body tp ''posts/0001-intro/README.md'' (strftime_now ''%d/%m/%Y'')) False]
         \<and> snd (create_pull_request gh strftime_now (get_next_number []) tp content) = Inr url"
  using assms
  by (simp add: create_pull_request_def get_next_number_Nil format_04d_1 Let_def run_simps
        POSTS_DIR_def POST_FILENAME_def MAIN_BRANCH_def)

theorem create_pull_request_first_post_witness:
  "calls_of (fst (create_pull_request (mock_github no_contents no_pull) mock_clock
       (get_next_number []) intro_topic ''# Intro'')) =
     [GetBranch ''main'',
      CreateGitRef ''refs/heads/agent/post-20260102-intro'' ''c0ffee'',
      CreateFile ''posts/0001-intro/README.md'' ''feat(blog): add post 0001-intro''
        ''# Intro'' ''agent/post-20260102-intro'',
      CreatePull ''main'' ''agent/post-20260102-intro'' ''[Blog Agent] Primeiros passos''
        (pr_body intro_topic ''posts/0001-intro/README.md'' ''02/01/2026'') False]
   \<and> snd (create_pull_request (mock_github no_contents no_pull) mock_clock
       (get_next_number []) intro_topic ''# Intro'') = Inr ''https://github.com/o/r/pull/1''"
  using create_pull_request_first_post [of intro_topic "mock_github no_contents no_pull"
      "''c0ffee''" mock_clock "''# Intro''" "''https://github.com/o/r/pull/1''"]
  by (simp add: mock_github_def mock_clock_def intro_topic_def)

section \<open>Properties of parse\_frontmatter\<close>

lemma startswith_append: "startswith s p \<Longrightarrow> s = p @ drop (length p) s"
  by (metis append_take_drop_id startswith_def)

lemma partition_at_Some:
  "partition_at sep s = Some (b, a) \<Longrightarrow> s = b @ sep @ a"
proof (induction s arbitrary: b)
  case Nil
  then show ?case by simp
next
  case (Cons c cs)
  show ?case
  proof (cases "startswith (c # cs) sep")
    case True
    with Cons.prems have "b = []" "a = drop (length sep) (c # cs)"
      by simp_all
    with startswith_append [OF True] show ?thesis by simp
  next
    case False
    with Cons.prems obtain b' where "partition_at sep cs = Some (b', a)" "b = c # b'"
      by (auto split: option.splits)
    with Cons.IH show ?thesis by simp
  qed
qed

lemma str_split_two:
  assumes "length (str_split s sep 2) \<ge> 3"
  shows "\<exists>a b c. s = a @ sep @ b @ sep @ c"
proof -
  have two: "str_split s sep 2 = str_split s sep (Suc (Suc 0))"
    by (simp add: numeral_2_eq_2)
  from assms obtain a r where p1: "partition_at sep s = Some (a, r)"
    by (cases "partition_at sep s") (auto simp: two)
  with assms obtain b c where p2: "partition_at sep r = Some (b, c)"
    by (cases "partition_at sep r") (auto simp: two)
  from partition_at_Some [OF p1] partition_at_Some [OF p2] show ?thesis
    by blast
qed

text \<open>The parts of the claim that hold on the code, for every document and every loader.\<close>

lemma parse_frontmatter_no_delimiter:
  "\<not> startswith content ''---'' \<Longrightarrow> parse_frontmatter safe_load content = Inr (YDict [])"
  by (simp add: parse_frontmatter_def)

lemma parse_frontmatter_few_delimiters:
  assumes "\<not> has_two_delimiters content"
  shows "parse_frontmatter safe_load content = Inr (YDict [])"
proof -
  from assms have "\<not> length (str_split content ''---'' 2) \<ge> 3"
    using str_split_two [of content "''---''"] by (auto simp: has_two_delimiters_def)
  then show ?thesis
    by (simp add: parse_frontmatter_def Let_def)
qed

lemma parse_frontmatter_yaml_error:
  "safe_load (str_split content ''---'' 2 ! 1) = Inl YAMLError \<Longrightarrow>
   parse_frontmatter safe_load content = Inr (YDict [])"
  by (simp add: parse_frontmatter_def Let_def)

lemma parse_frontmatter_mapping:
  "startswith content ''---'' \<Longrightarrow> length (str_split content ''---'' 2) = 3 \<Longrightarrow>
   safe_load (str_split content ''---'' 2 ! 1) = Inr (YDict kvs) \<Longrightarrow>
   parse_frontmatter safe_load content = Inr (YDict kvs)"
  by (cases kvs) (simp_all add: parse_frontmatter_def Let_def)

lemma str_split_hello:
  "str_split ''---\<newline>hello\<newline>---\<newline>'' ''---'' 2 =
     ['''', ''\<newline>hello\<newline>'', ''\<newline>'']"
  by (simp add: numeral_2_eq_2 startswith_def)

text \<open>
  C3. For every input document, \<open>parse_frontmatter\<close> returns an empty mapping when the
  document does not start with the delimiter, when it has fewer than two delimiters, and
  when the middle part fails to parse as a key-value block, and the declared keys on a
  well-formed block. The code departs from the third case: on the document whose middle
  part is the plain scalar \<open>hello\<close>, which is no key-value block, it returns the str
  \<open>hello\<close>, which is no mapping at all.
\<close>

theorem parse_frontmatter_scalar_block:
  "parse_frontmatter mock_safe_load ''---\<newline>hello\<newline>---\<newline>'' = Inr (YStr ''hello'')"
  by (simp add: parse_frontmatter_def Let_def str_split_hello mock_safe_load_def startswith_def)

text \<open>The caller then fails on \<open>fm.get\<close>, and the exception is not the one it catches.\<close>

lemma read_post_scalar_block:
  "get_contents gh (post_path it) None =
     Inr (ContentFile ''---\<newline>hello\<newline>---\<newline>'') \<Longrightarrow>
   snd (read_post gh mock_safe_load it) = Inl AttributeError"
  by (simp add: read_post_def run_simps str_split_hello parse_frontmatter_def Let_def
        mock_safe_load_def startswith_def)

section \<open>Properties of choose\_next\_topic\<close>

lemma endswith_append: "endswith (xs @ p) p"
  by (simp add: endswith_def)

lemma take_append_suffix: "take (length (xs @ p) - length p) (xs @ p) = xs"
  by simp

lemma chop_newline_append: "chop_newline (xs @ ''\<newline>'') = xs"
  by (simp add: chop_newline_def endswith_def)

lemma sub_trailing_fence_fenced: "sub_trailing_fence (body @ ''\<newline>```'') = body"
proof -
  have e: "endswith (body @ ''\<newline>```'') ''```''"
    using endswith_append [of "body @ ''\<newline>''" "''```''"] by simp
  have t: "take (length (body @ ''\<newline>```'') - 3) (body @ ''\<newline>```'') = body @ ''\<newline>''"
    using take_append_suffix [of "body @ ''\<newline>''" "''```''"] by simp
  show ?thesis
    unfolding sub_trailing_fence_def using e by (simp only: t if_True chop_newline_append)
qed

lemma sub_leading_fence_json: "sub_leading_fence (''```json\<newline>'' @ rest) = rest"
  by (simp add: sub_leading_fence_def startswith_def)

lemma sub_leading_fence_plain: "sub_leading_fence (''```\<newline>'' @ rest) = rest"
  by (simp add: sub_leading_fence_def startswith_def)

lemma is_space_backquote: "\<not> is_space CHR ''`''"
  by (simp add: is_space_def)

lemma strip_backquotes: "strip (''`'' @ middle @ ''`'') = ''`'' @ middle @ ''`''"
  by (simp add: strip_def lstrip_def rstrip_def is_space_backquote)

lemma strip_fenced_json:
  "strip (''```json\<newline>'' @ body @ ''\<newline>```'') = ''```json\<newline>'' @ body @ ''\<newline>```''"
  using strip_backquotes [of "''``json\<newline>'' @ body @ ''\<newline>``''"] by simp

lemma strip_fenced_plain:
  "strip (''```\<newline>'' @ body @ ''\<newline>```'') = ''```\<newline>'' @ body @ ''\<newline>```''"
  using strip_backquotes [of "''``\<newline>'' @ body @ ''\<newline>``''"] by simp

lemma sub_fences_none:
  "\<not> startswith raw ''```'' \<Longrightarrow> \<not> endswith raw ''```'' \<Longrightarrow>
   \<not> endswith raw ''```\<newline>'' \<Longrightarrow>
   sub_trailing_fence (sub_leading_fence raw) = raw"
  by (simp add: sub_leading_fence_def sub_trailing_fence_def)

lemma rstrip_last:
  assumes "rstrip s \<noteq> []"
  shows "\<not> is_space (last (rstrip s))"
proof -
  from assms have d: "dropWhile is_space (rev s) \<noteq> []"
    by (simp add: rstrip_def)
  then have "\<not> is_space (hd (dropWhile is_space (rev s)))"
    by (rule hd_dropWhile)
  moreover have "last (rstrip s) = hd (dropWhile is_space (rev s))"
    using d by (simp add: rstrip_def last_rev)
  ultimately show ?thesis by simp
qed

text \<open>After \<open>strip()\<close> a text does not end with a newline.\<close>

lemma strip_not_newline_end: "\<not> endswith (strip s) (p @ ''\<newline>'')"
proof
  assume e: "endswith (strip s) (p @ ''\<newline>'')"
  then have eq: "drop (length (strip s) - length (p @ ''\<newline>'')) (strip s) = p @ ''\<newline>''"
    by (simp add: endswith_def)
  then have ne: "strip s \<noteq> []"
    by auto
  have "strip s = (take (length (strip s) - length (p @ ''\<newline>'')) (strip s) @ p) @ [CHR 0x0A]"
    using append_take_drop_id [of "length (strip s) - length (p @ ''\<newline>'')" "strip s"]
    by (simp only: eq) simp
  then have "last (strip s) = CHR 0x0A"
    by (metis last_snoc)
  moreover have "\<not> is_space (last (strip s))"
    using ne rstrip_last [of "lstrip s"] by (simp add: strip_def)
  ultimately show False
    by (simp add: is_space_def)
qed

lemma choose_next_topic_run:
  "client \<lparr>req_model = MODEL_ID, req_content = prompt, req_max_tokens = 600,
            req_temperature = ''0.7''\<rparr> = Inr (Some reply # others) \<Longrightarrow>
   choose_next_topic json_loads client prompt =
     ([Call (ChatCompletion \<lparr>req_model = MODEL_ID, req_content = prompt, req_max_tokens = 600,
                              req_temperature = ''0.7''\<rparr>)],
      json_loads (sub_trailing_fence (sub_leading_fence (strip reply))))"
  by (simp add: choose_next_topic_def Let_def first_content_def run_simps)

lemma startswith_iff: "startswith s p \<longleftrightarrow> (\<exists>r. s = p @ r)"
proof
  assume "startswith s p"
  then have "s = p @ drop (length p) s"
    by (rule startswith_append)
  then show "\<exists>r. s = p @ r" ..
next
  assume "\<exists>r. s = p @ r"
  then show "startswith s p"
    by (auto simp: startswith_def)
qed

lemma endswith_iff: "endswith s p \<longleftrightarrow> (\<exists>r. s = r @ p)"
proof
  assume "endswith s p"
  then have "s = take (length s - length p) s @ p"
    by (metis append_take_drop_id endswith_def)
  then show "\<exists>r. s = r @ p" ..
next
  assume "\<exists>r. s = r @ p"
  then show "endswith s p"
    by (auto simp: endswith_def)
qed

lemma startswith_append_iff:
  "length p = n \<Longrightarrow>
   startswith s (p @ q) \<longleftrightarrow> startswith s p \<and> startswith (drop n s) q"
  by (auto simp: startswith_iff)

lemma endswith_append_iff:
  "length q = n \<Longrightarrow>
   endswith s (p @ q) \<longleftrightarrow> endswith s q \<and> endswith (take (length s - n) s) p"
  by (auto simp: endswith_iff)

text \<open>The first substitution removes the first leading marker that the text starts with.\<close>

lemma sub_leading_fence_markers:
  "sub_leading_fence raw = remove_first_prefix leading_fence_markers raw"
proof -
  have a: "startswith raw ''```json\<newline>'' \<longleftrightarrow>
      startswith raw ''```'' \<and> startswith (drop 3 raw) ''json'' \<and>
      startswith (drop 7 raw) ''\<newline>''"
    using startswith_append_iff [of "''```''" 3 raw "''json\<newline>''"]
      startswith_append_iff [of "''json''" 4 "drop 3 raw" "''\<newline>''"]
    by simp
  have b: "startswith raw ''```json'' \<longleftrightarrow>
      startswith raw ''```'' \<and> startswith (drop 3 raw) ''json''"
    using startswith_append_iff [of "''```''" 3 raw "''json''"] by simp
  have c: "startswith raw ''```\<newline>'' \<longleftrightarrow>
      startswith raw ''```'' \<and> startswith (drop 3 raw) ''\<newline>''"
    using startswith_append_iff [of "''```''" 3 raw "''\<newline>''"] by simp
  have d: "\<not> (startswith t ''json'' \<and> startswith t ''\<newline>'')" for t
    by (auto simp: startswith_iff)
  show ?thesis
    using d [of "drop 3 raw"]
    by (auto simp add: sub_leading_fence_def leading_fence_markers_def Let_def a b c
          eval_nat_numeral)
qed

text \<open>
  The second substitution removes the first trailing marker that the text ends with, on
  a text that does not end with a newline.
\<close>

lemma sub_trailing_fence_markers:
  assumes "\<not> endswith raw ''```\<newline>''"
  shows "sub_trailing_fence raw = remove_first_suffix trailing_fence_markers raw"
proof -
  have a: "endswith raw ''\<newline>```'' \<longleftrightarrow>
      endswith raw ''```'' \<and> endswith (take (length raw - 3) raw) ''\<newline>''"
    using endswith_append_iff [of "''```''" 3 raw "''\<newline>''"] by simp
  show ?thesis
    using assms
    by (auto simp add: sub_trailing_fence_def trailing_fence_markers_def chop_newline_def a
          eval_nat_numeral butlast_take)
qed

lemma sub_leading_fence_drop: "\<exists>k. sub_leading_fence raw = drop k raw"
proof (cases "startswith raw ''```''")
  case False
  then have "sub_leading_fence raw = drop 0 raw"
    by (simp add: sub_leading_fence_def)
  then show ?thesis ..
next
  case True
  then show ?thesis
    by (auto simp: sub_leading_fence_def Let_def intro: exI)
qed

lemma endswith_drop: "endswith (drop k s) p \<Longrightarrow> endswith s p"
proof -
  assume "endswith (drop k s) p"
  then obtain r where "drop k s = r @ p"
    by (auto simp: endswith_iff)
  then have "s = (take k s @ r) @ p"
    by (metis append_assoc append_take_drop_id)
  then show ?thesis
    unfolding endswith_iff ..
qed

lemma sub_leading_fence_not_newline_end:
  "\<not> endswith (sub_leading_fence (strip s)) (p @ ''\<newline>'')"
proof -
  obtain k where "sub_leading_fence (strip s) = drop k (strip s)"
    using sub_leading_fence_drop by blast
  then show ?thesis
    using endswith_drop [of k "strip s" "p @ ''\<newline>''"] strip_not_newline_end [of s p]
    by auto
qed

lemma sub_fences_markers:
  "sub_trailing_fence (sub_leading_fence (strip s)) =
   remove_first_suffix trailing_fence_markers
     (remove_first_prefix leading_fence_markers (strip s))"
proof -
  have "\<not> endswith (sub_leading_fence (strip s)) ''```\<newline>''"
    using sub_leading_fence_not_newline_end [of s "''```''"] by simp
  then show ?thesis
    by (simp add: sub_trailing_fence_markers sub_leading_fence_markers)
qed

text \<open>
  C4, as stated: one leading code-fence marker is stripped with or without a language
  tag, and a response whose stripped text is valid JSON gives the decoded object. The
  code removes no tag but \<open>json\<close>: of a reply fenced with the tag \<open>python\<close>, or \<open>JSON\<close>, it
  keeps the tag, and it raises although the fenced text is valid JSON.
\<close>

theorem choose_next_topic_keeps_other_tag:
  "sub_trailing_fence (sub_leading_fence (strip ''```python\<newline>[1, 2]\<newline>```''))
     = ''python\<newline>[1, 2]''
   \<and> snd (choose_next_topic mock_json_loads
            (reply_client ''```python\<newline>[1, 2]\<newline>```'') ''Tema?'') = Inl JSONDecodeError
   \<and> snd (choose_next_topic mock_json_loads
            (reply_client ''```JSON\<newline>[1, 2]\<newline>```'') ''Tema?'') = Inl JSONDecodeError
   \<and> mock_json_loads ''[1, 2]'' = Inr [1, 2]"
proof -
  note ev = strip_def lstrip_def rstrip_def is_space_def sub_leading_fence_def
    sub_trailing_fence_def chop_newline_def startswith_def endswith_def
  have a: "sub_trailing_fence (sub_leading_fence (strip ''```python\<newline>[1, 2]\<newline>```''))
     = ''python\<newline>[1, 2]''"
    by (simp add: ev)
  have b: "sub_trailing_fence (sub_leading_fence (strip ''```JSON\<newline>[1, 2]\<newline>```''))
     = ''JSON\<newline>[1, 2]''"
    by (simp add: ev)
  have c: "snd (choose_next_topic mock_json_loads
            (reply_client ''```python\<newline>[1, 2]\<newline>```'') ''Tema?'') = Inl JSONDecodeError"
    using choose_next_topic_run
      [of "reply_client ''```python\<newline>[1, 2]\<newline>```''" "''Tema?''"
          "''```python\<newline>[1, 2]\<newline>```''" "[]" mock_json_loads]
    by (simp add: reply_client_def a mock_json_loads_def)
  have d: "snd (choose_next_topic mock_json_loads
            (reply_client ''```JSON\<newline>[1, 2]\<newline>```'') ''Tema?'') = Inl JSONDecodeError"
    using choose_next_topic_run
      [of "reply_client ''```JSON\<newline>[1, 2]\<newline>```''" "''Tema?''"
          "''```JSON\<newline>[1, 2]\<newline>```''" "[]" mock_json_loads]
    by (simp add: reply_client_def b mock_json_loads_def)
  from a c d show ?thesis
    by (simp add: mock_json_loads_def)
qed

text \<open>
  C4, amended. Topic-response parsing takes the first choice of the response, strips
  the whitespace around it, removes one leading code-fence marker (three backquotes,
  then the tag \<open>json\<close> if it follows and no other tag, then one newline if it follows)
  and one trailing code-fence marker (one newline if there is one, then three
  backquotes), and decodes the remainder: for every response the result is what
  \<open>json.loads\<close> gives on that remainder, its exception when the remainder is no JSON, the
  decoded value when it is. So a reply fenced with the tag \<open>json\<close> or with no tag decodes
  its body, and a reply with no fence decodes its stripped text.
\<close>

theorem choose_next_topic_strips_and_decodes:
  assumes "client \<lparr>req_model = MODEL_ID, req_content = prompt, req_max_tokens = 600,
              req_temperature = ''0.7''\<rparr> = Inr (Some reply # others)"
  shows "fst (choose_next_topic json_loads client prompt) =
           [Call (ChatCompletion \<lparr>req_model = MODEL_ID, req_content = prompt,
                                    req_max_tokens = 600, req_temperature = ''0.7''\<rparr>)]
       \<and> snd (choose_next_topic json_loads client prompt) =
           json_loads (remove_first_suffix trailing_fence_markers
                        (remove_first_prefix leading_fence_markers (strip reply)))
       \<and> (reply = ''```json\<newline>'' @ body @ ''\<newline>```'' \<longrightarrow>
           snd (choose_next_topic json_loads client prompt) = json_loads body)
       \<and> (reply = ''```\<newline>'' @ body @ ''\<newline>```'' \<longrightarrow>
           snd (choose_next_topic json_loads client prompt) = json_loads body)
       \<and> (\<not> startswith (strip reply) ''```'' \<and> \<not> endswith (strip reply) ''```'' \<longrightarrow>
           snd (choose_next_topic json_loads client prompt) = json_loads (strip reply))"
proof -
  note run = choose_next_topic_run [where client = client and json_loads = json_loads,
      OF assms]
  have t: "fst (choose_next_topic json_loads client prompt) =
           [Call (ChatCompletion \<lparr>req_model = MODEL_ID, req_content = prompt,
                                    req_max_tokens = 600, req_temperature = ''0.7''\<rparr>)]"
    using run by simp
  have g: "snd (choose_next_topic json_loads client prompt) =
           json_loads (sub_trailing_fence (sub_leading_fence (strip reply)))"
    using run by simp
  have m: "snd (choose_next_topic json_loads client prompt) =
           json_loads (remove_first_suffix trailing_fence_markers
                        (remove_first_prefix leading_fence_markers (strip reply)))"
    using g by (simp only: sub_fences_markers)
  have j: "snd (choose_next_topic json_loads client prompt) = json_loads body"
    if "reply = ''```json\<newline>'' @ body @ ''\<newline>```''"
    using g that
    by (simp only: strip_fenced_json sub_leading_fence_json sub_trailing_fence_fenced)
  have p: "snd (choose_next_topic json_loads client prompt) = json_loads body"
    if "reply = ''```\<newline>'' @ body @ ''\<newline>```''"
    using g that
    by (simp only: strip_fenced_plain sub_leading_fence_plain sub_trailing_fence_fenced)
  have n: "snd (choose_next_topic json_loads client prompt) = json_loads (strip reply)"
    if "\<not> startswith (strip reply) ''```''" "\<not> endswith (strip reply) ''```''"
  proof -
    have "\<not> endswith (strip reply) ''```\<newline>''"
      using strip_not_newline_end [of reply "''```''"] by simp
    with that g show ?thesis by (simp add: sub_fences_none)
  qed
  from t m j p n show ?thesis by blast
qed

theorem choose_next_topic_strips_and_decodes_witness:
  "snd (choose_next_topic mock_json_loads (reply_client ''```json\<newline>[1, 2]\<newline>```'') ''Tema?'')
     = Inr [1, 2]
   \<and> snd (choose_next_topic mock_json_loads (reply_client ''```\<newline>[1, 2]\<newline>```'') ''Tema?'')
     = Inr [1, 2]
   \<and> snd (choose_next_topic mock_json_loads (reply_client '' [1, 2]\<newline>'') ''Tema?'')
     = Inr [1, 2]
   \<and> snd (choose_next_topic mock_json_loads (reply_client ''```json[1, 2]'') ''Tema?'')
     = Inr [1, 2]
   \<and> snd (choose_next_topic mock_json_loads (reply_client ''[1, 2]\<newline>```'') ''Tema?'')
     = Inr [1, 2]
   \<and> snd (choose_next_topic mock_json_loads (reply_client ''Claro! Aqui vai.'') ''Tema?'')
     = Inl JSONDecodeError"
proof -
  note ev = strip_def lstrip_def rstrip_def is_space_def sub_leading_fence_def
    sub_trailing_fence_def chop_newline_def startswith_def endswith_def
    leading_fence_markers_def trailing_fence_markers_def
  have a: "snd (choose_next_topic mock_json_loads
                 (reply_client ''```json\<newline>[1, 2]\<newline>```'') ''Tema?'') = Inr [1, 2]"
    using choose_next_topic_strips_and_decodes
      [of "reply_client ''```json\<newline>[1, 2]\<newline>```''" "''Tema?''"
          "''```json\<newline>[1, 2]\<newline>```''" "[]" mock_json_loads "''[1, 2]''"]
    by (simp add: reply_client_def mock_json_loads_def ev)
  have b: "snd (choose_next_topic mock_json_loads
                 (reply_client ''```\<newline>[1, 2]\<newline>```'') ''Tema?'') = Inr [1, 2]"
    using choose_next_topic_strips_and_decodes
      [of "reply_client ''```\<newline>[1, 2]\<newline>```''" "''Tema?''"
          "''```\<newline>[1, 2]\<newline>```''" "[]" mock_json_loads "''[1, 2]''"]
    by (simp add: reply_client_def mock_json_loads_def ev)
  have c: "snd (choose_next_topic mock_json_loads (reply_client '' [1, 2]\<newline>'') ''Tema?'')
             = Inr [1, 2]"
    using choose_next_topic_strips_and_decodes
      [of "reply_client '' [1, 2]\<newline>''" "''Tema?''" "'' [1, 2]\<newline>''" "[]"
          mock_json_loads "[]"]
    by (simp add: reply_client_def mock_json_loads_def ev)
  have d: "snd (choose_next_topic mock_json_loads (reply_client ''```json[1, 2]'') ''Tema?'')
             = Inr [1, 2]"
    using choose_next_topic_strips_and_decodes
      [of "reply_client ''```json[1, 2]''" "''Tema?''" "''```json[1, 2]''" "[]"
          mock_json_loads "[]"]
    by (simp add: reply_client_def mock_json_loads_def ev)
  have e: "snd (choose_next_topic mock_json_loads (reply_client ''[1, 2]\<newline>```'') ''Tema?'')
             = Inr [1, 2]"
    using choose_next_topic_strips_and_decodes
      [of "reply_client ''[1, 2]\<newline>```''" "''Tema?''" "''[1, 2]\<newline>```''" "[]"
          mock_json_loads "[]"]
    by (simp add: reply_client_def mock_json_loads_def ev)
  have f: "snd (choose_next_topic mock_json_loads (reply_client ''Claro! Aqui vai.'') ''Tema?'')
             = Inl JSONDecodeError"
    using choose_next_topic_strips_and_decodes
      [of "reply_client ''Claro! Aqui vai.''" "''Tema?''" "''Claro! Aqui vai.''" "[]"
          mock_json_loads "[]"]
    by (simp add: reply_client_def mock_json_loads_def ev)
  from a b c d e f show ?thesis by blast
qed

section \<open>Properties of get\_post\_content\<close>

lemma get_post_content_loop_Cons:
  "get_post_content_loop gh sha (f # fs) =
     (if is_post_file f then
        ([Call (GetContents (filename f) (Some sha))],
         case get_contents gh (filename f) (Some sha) of
           Inl e \<Rightarrow> Inl e
         | Inr (ContentFile text) \<Rightarrow> Inr (filename f, text)
         | Inr (ContentDir _) \<Rightarrow> Inl AttributeError)
      else get_post_content_loop gh sha fs)"
  by (simp add: is_post_file_def run_simps bind_run_def prepend_def
        split: sum.splits contents.splits)

lemma get_post_content_loop_none:
  "find is_post_file fs = None \<Longrightarrow> get_post_content_loop gh sha fs = ([], Inr ([], []))"
  by (induction fs)
    (simp_all add: get_post_content_loop_Cons ret_def del: get_post_content_loop.simps(2)
       split: if_splits)

lemma get_post_content_loop_some:
  "find is_post_file fs = Some f \<Longrightarrow>
   get_post_content_loop gh sha fs =
     ([Call (GetContents (filename f) (Some sha))],
      case get_contents gh (filename f) (Some sha) of
        Inl e \<Rightarrow> Inl e
      | Inr (ContentFile text) \<Rightarrow> Inr (filename f, text)
      | Inr (ContentDir _) \<Rightarrow> Inl AttributeError)"
  by (induction fs)
    (auto simp add: get_post_content_loop_Cons simp del: get_post_content_loop.simps(2)
       split: if_splits)

lemma get_post_content_none:
  "find is_post_file (files pr) = None \<Longrightarrow>
   get_post_content gh pr = ([Call GetFiles], Inr ([], []))"
  by (simp add: get_post_content_def run_simps get_post_content_loop_none)

lemma get_post_content_some:
  "find is_post_file (files pr) = Some f \<Longrightarrow>
   get_post_content gh pr =
     ([Call GetFiles, Call (GetContents (filename f) (Some (head_sha pr)))],
      case get_contents gh (filename f) (Some (head_sha pr)) of
        Inl e \<Rightarrow> Inl e
      | Inr (ContentFile text) \<Rightarrow> Inr (filename f, text)
      | Inr (ContentDir _) \<Rightarrow> Inl AttributeError)"
  by (simp add: get_post_content_def run_simps get_post_content_loop_some)

lemma find_is_post_file: "find is_post_file fs = Some f \<Longrightarrow> is_post_file f \<and> f \<in> set fs"
  by (induction fs) (auto split: if_splits)

lemma find_old_readme_pull:
  "find is_post_file (files old_readme_pull) = Some \<lparr>filename = ''posts/0001-intro/OLD_README.md''\<rparr>"
  by (simp add: old_readme_pull_def is_post_file_def startswith_def endswith_def)

lemma find_intro_pull:
  "find is_post_file (files intro_pull) = Some \<lparr>filename = ''posts/0001-intro/README.md''\<rparr>"
  by (simp add: intro_pull_def is_post_file_def startswith_def endswith_def)

lemma find_docs_pull: "find is_post_file (files docs_pull) = None"
  by (simp add: docs_pull_def is_post_file_def startswith_def endswith_def)

text \<open>
  C5, as stated: no changed file whose name is not \<open>README.md\<close> is ever selected. The
  code selects the changed file \<open>posts/0001-intro/OLD_README.md\<close>, whose name is
  \<open>OLD_README.md\<close>.
\<close>

theorem get_post_content_selects_other_name:
  "snd (get_post_content (mock_github (file_contents ''# Antigo'') old_readme_pull) old_readme_pull)
     = Inr (''posts/0001-intro/OLD_README.md'', ''# Antigo'')
   \<and> file_name ''posts/0001-intro/OLD_README.md'' = ''OLD_README.md''
   \<and> file_name ''posts/0001-intro/OLD_README.md'' \<noteq> ''README.md''"
  by (simp add: get_post_content_some [OF find_old_readme_pull] mock_github_def
        file_contents_def file_name_def)

text \<open>
  C5, amended. For every pull request, \<open>get_post_content\<close> returns the path and the
  head-commit content of the first changed file, in the order of the changed files, whose
  path starts with \<open>posts/\<close> and ends with \<open>README.md\<close>; a path it returns is the path of
  that first file, so no changed file whose path does not end with \<open>README.md\<close> is ever
  selected.
\<close>

theorem get_post_content_first_match:
  "(find is_post_file (files pr) = Some f \<and>
      get_contents gh (filename f) (Some (head_sha pr)) = Inr (ContentFile text) \<longrightarrow>
      snd (get_post_content gh pr) = Inr (filename f, text))
   \<and> (snd (get_post_content gh pr) = Inr (path, content) \<and> path \<noteq> [] \<longrightarrow>
      startswith path ''posts/'' \<and> endswith path ''README.md'' \<and>
      find is_post_file (files pr) = Some \<lparr>filename = path\<rparr>)"
proof -
  have a: "snd (get_post_content gh pr) = Inr (filename f, text)"
    if "find is_post_file (files pr) = Some f"
      "get_contents gh (filename f) (Some (head_sha pr)) = Inr (ContentFile text)"
    using that by (simp add: get_post_content_some)
  have b: "startswith path ''posts/'' \<and> endswith path ''README.md'' \<and>
      find is_post_file (files pr) = Some \<lparr>filename = path\<rparr>"
    if r: "snd (get_post_content gh pr) = Inr (path, content)" and ne: "path \<noteq> []"
  proof (cases "find is_post_file (files pr)")
    case None
    with r ne show ?thesis by (simp add: get_post_content_none)
  next
    case (Some g)
    with r have "filename g = path"
      by (auto simp: get_post_content_some split: sum.splits contents.splits)
    then have "g = \<lparr>filename = path\<rparr>" by (cases g) simp
    with Some find_is_post_file [OF Some] show ?thesis
      by (simp add: is_post_file_def)
  qed
  from a b show ?thesis by blast
qed

theorem get_post_content_first_match_witness:
  "find is_post_file (files intro_pull) = Some \<lparr>filename = ''posts/0001-intro/README.md''\<rparr>
   \<and> snd (get_post_content (mock_github (file_contents ''# Intro'') intro_pull) intro_pull)
     = Inr (''posts/0001-intro/README.md'', ''# Intro'')
   \<and> startswith ''posts/0001-intro/README.md'' ''posts/''
   \<and> endswith ''posts/0001-intro/README.md'' ''README.md''"
  using get_post_content_first_match
    [of intro_pull "\<lparr>filename = ''posts/0001-intro/README.md''\<rparr>"
        "mock_github (file_contents ''# Intro'') intro_pull" "''# Intro''"
        "''posts/0001-intro/README.md''" "''# Intro''"]
  by (simp add: find_intro_pull mock_github_def file_contents_def)

section \<open>Properties of the review run\<close>

lemma pr_reviewer_main_abort:
  assumes "get_repo gh (repo_name cfg) = Inr ()"
    and "get_pull gh (pr_number cfg) = Inr pr"
    and "get_post_content gh pr = (t, Inr (path, []))"
  shows "snd (pr_reviewer_main cfg gh client) = Inr ()"
    and "calls_of (fst (pr_reviewer_main cfg gh client)) =
           GetRepo (repo_name cfg) # GetPull (pr_number cfg) # calls_of t"
  using assms by (simp_all add: pr_reviewer_main_def run_simps calls_of_append)

lemma pr_reviewer_main_abort_prints:
  assumes "get_repo gh (repo_name cfg) = Inr ()"
    and "get_pull gh (pr_number cfg) = Inr pr"
    and "get_post_content gh pr = (t, Inr (path, []))"
    and "get_repo gh' (repo_name cfg) = Inr ()"
    and "get_pull gh' (pr_number cfg) = Inr pr'"
    and "get_post_content gh' pr' = (t', Inr (path', []))"
    and "pr_title pr' = pr_title pr"
    and "prints_of t' = prints_of t"
  shows "prints_of (fst (pr_reviewer_main cfg gh client)) =
         prints_of (fst (pr_reviewer_main cfg gh' client))"
  using assms by (simp add: pr_reviewer_main_def run_simps prints_of_append)

lemma find_None_Ball: "find P xs = None \<longleftrightarrow> (\<forall>x\<in>set xs. \<not> P x)"
  by (induction xs) simp_all

text \<open>
  C6, as stated: for every pull request with no changed file matching a posts-root
  document, that is a file under the posts root whose name is \<open>README.md\<close>, the review
  run makes no inference call and no comment-posting call. The one changed file of the
  pull request below is named \<open>OLD_README.md\<close>, and the run makes one inference call and
  posts one comment.
\<close>

theorem other_name_is_reviewed:
  "map (\<lambda>f. file_name (filename f)) (files old_readme_pull) = [''OLD_README.md'']
   \<and> snd (pr_reviewer_main mock_config
            (mock_github (file_contents ''# Antigo'') old_readme_pull) (reply_client ''Nota: 8''))
       = Inr ()
   \<and> length (filter is_chat_call (calls_of (fst (pr_reviewer_main mock_config
            (mock_github (file_contents ''# Antigo'') old_readme_pull) (reply_client ''Nota: 8'')))))
       = 1
   \<and> length (filter is_comment_call (calls_of (fst (pr_reviewer_main mock_config
            (mock_github (file_contents ''# Antigo'') old_readme_pull) (reply_client ''Nota: 8'')))))
       = 1"
proof -
  have names: "map (\<lambda>f. file_name (filename f)) (files old_readme_pull) = [''OLD_README.md'']"
    by (simp add: old_readme_pull_def file_name_def)
  have sel: "get_post_content (mock_github (file_contents ''# Antigo'') old_readme_pull)
        old_readme_pull =
      ([Call GetFiles, Call (GetContents ''posts/0001-intro/OLD_README.md'' (Some ''beef''))],
       Inr (''posts/0001-intro/OLD_README.md'', ''# Antigo''))"
    using get_post_content_some [OF find_old_readme_pull,
        of "mock_github (file_contents ''# Antigo'') old_readme_pull"]
    by (simp add: mock_github_def file_contents_def) (simp add: old_readme_pull_def)
  have pull: "get_pull (mock_github (file_contents ''# Antigo'') old_readme_pull)
        (pr_number mock_config) = Inr old_readme_pull"
    by (simp add: mock_github_def)
  have repo: "get_repo (mock_github (file_contents ''# Antigo'') old_readme_pull)
        (repo_name mock_config) = Inr ()"
    by (simp add: mock_github_def)
  have comment: "create_issue_comment (mock_github (file_contents ''# Antigo'') old_readme_pull) c
        = Inr ()" for c
    by (simp add: mock_github_def)
  have run: "snd (pr_reviewer_main mock_config
            (mock_github (file_contents ''# Antigo'') old_readme_pull) (reply_client ''Nota: 8''))
       = Inr ()
   \<and> length (filter is_chat_call (calls_of (fst (pr_reviewer_main mock_config
            (mock_github (file_contents ''# Antigo'') old_readme_pull) (reply_client ''Nota: 8'')))))
       = 1
   \<and> length (filter is_comment_call (calls_of (fst (pr_reviewer_main mock_config
            (mock_github (file_contents ''# Antigo'') old_readme_pull) (reply_client ''Nota: 8'')))))
       = 1"
    by (simp add: pr_reviewer_main_def repo pull sel comment run_simps Let_def first_content_def
          post_review_comment_def reply_client_def calls_of_append)
  from names run show ?thesis by simp
qed

text \<open>
  C6, amended. For every pull request with no changed file whose path starts with
  \<open>posts/\<close> and ends with \<open>README.md\<close>, the selection returns the empty path and the empty
  content, no exception, and the review run then makes no inference call and no
  comment-posting call and ends normally.
\<close>

theorem no_post_file_aborts:
  assumes "get_repo gh (repo_name cfg) = Inr ()"
    and "get_pull gh (pr_number cfg) = Inr pr"
    and "\<forall>f\<in>set (files pr). \<not> is_post_file f"
  shows "snd (get_post_content gh pr) = Inr ([], [])
       \<and> snd (pr_reviewer_main cfg gh client) = Inr ()
       \<and> filter is_chat_call (calls_of (fst (pr_reviewer_main cfg gh client))) = []
       \<and> filter is_comment_call (calls_of (fst (pr_reviewer_main cfg gh client))) = []"
proof -
  from assms(3) have none: "find is_post_file (files pr) = None"
    by (simp add: find_None_Ball)
  have sel: "get_post_content gh pr = ([Call GetFiles], Inr ([], []))"
    using none by (rule get_post_content_none)
  from pr_reviewer_main_abort [OF assms(1) assms(2) sel, of client] sel
  show ?thesis by (simp add: run_simps)
qed

theorem no_post_file_aborts_witness:
  "find is_post_file (files docs_pull) = None
   \<and> snd (get_post_content (mock_github no_contents docs_pull) docs_pull) = Inr ([], [])
   \<and> snd (pr_reviewer_main
            \<lparr>github_token = ''ghp'', hf_token = ''hf'', repo_name = ''o/r'', pr_number = 7,
               model_id = ''m'', content_max_tokens = 8192\<rparr>
            (mock_github no_contents docs_pull) (reply_client ''Nota: 8'')) = Inr ()
   \<and> filter is_chat_call (calls_of (fst (pr_reviewer_main
            \<lparr>github_token = ''ghp'', hf_token = ''hf'', repo_name = ''o/r'', pr_number = 7,
               model_id = ''m'', content_max_tokens = 8192\<rparr>
            (mock_github no_contents docs_pull) (reply_client ''Nota: 8'')))) = []
   \<and> filter is_comment_call (calls_of (fst (pr_reviewer_main
            \<lparr>github_token = ''ghp'', hf_token = ''hf'', repo_name = ''o/r'', pr_number = 7,
               model_id = ''m'', content_max_tokens = 8192\<rparr>
            (mock_github no_contents docs_pull) (reply_client ''Nota: 8'')))) = []"
proof -
  have none: "\<forall>f\<in>set (files docs_pull). \<not> is_post_file f"
    using find_docs_pull by (simp only: find_None_Ball)
  from none no_post_file_aborts
    [of "mock_github no_contents docs_pull"
        "\<lparr>github_token = ''ghp'', hf_token = ''hf'', repo_name = ''o/r'', pr_number = 7,
           model_id = ''m'', content_max_tokens = 8192\<rparr>"
        docs_pull "reply_client ''Nota: 8''"]
  show ?thesis by (simp add: mock_github_def find_docs_pull)
qed

text \<open>
  C10. If the first matching changed file exists but its decoded content is the empty
  string, the selection returns its path, which is not empty, with the empty content,
  and the review run aborts as in the case of no matching file: it ends normally, makes
  no inference call and no comment-posting call, and prints what the run on the same
  pull request without changed files prints.
\<close>

theorem empty_content_aborts:
  assumes "get_repo gh (repo_name cfg) = Inr ()"
    and "get_pull gh (pr_number cfg) = Inr pr"
    and "find is_post_file (files pr) = Some f"
    and "get_contents gh (filename f) (Some (head_sha pr)) = Inr (ContentFile [])"
  shows "snd (get_post_content gh pr) = Inr (filename f, [])
       \<and> filename f \<noteq> []
       \<and> snd (pr_reviewer_main cfg gh client) = Inr ()
       \<and> filter is_chat_call (calls_of (fst (pr_reviewer_main cfg gh client))) = []
       \<and> filter is_comment_call (calls_of (fst (pr_reviewer_main cfg gh client))) = []
       \<and> prints_of (fst (pr_reviewer_main cfg gh client)) =
           prints_of (fst (pr_reviewer_main cfg (without_files gh pr) client))
       \<and> snd (pr_reviewer_main cfg (without_files gh pr) client) = Inr ()"
proof -
  have sel: "get_post_content gh pr =
      ([Call GetFiles, Call (GetContents (filename f) (Some (head_sha pr)))], Inr (filename f, []))"
    using assms(3,4) by (simp add: get_post_content_some)
  have ne: "filename f \<noteq> []"
    using find_is_post_file [OF assms(3)] by (auto simp: is_post_file_def startswith_def)
  have repo': "get_repo (without_files gh pr) (repo_name cfg) = Inr ()"
    using assms(1) by (simp add: without_files_def)
  have pull': "get_pull (without_files gh pr) (pr_number cfg) = Inr (pr\<lparr>files := []\<rparr>)"
    by (simp add: without_files_def)
  have sel': "get_post_content (without_files gh pr) (pr\<lparr>files := []\<rparr>) =
      ([Call GetFiles], Inr ([], []))"
    by (simp add: get_post_content_none)
  have prints: "prints_of (fst (pr_reviewer_main cfg gh client)) =
           prints_of (fst (pr_reviewer_main cfg (without_files gh pr) client))"
    by (rule pr_reviewer_main_abort_prints [OF assms(1) assms(2) sel repo' pull' sel'])
      (simp_all add: run_simps)
  from pr_reviewer_main_abort [OF assms(1) assms(2) sel, of client]
    pr_reviewer_main_abort [OF repo' pull' sel', of client] sel ne prints
  show ?thesis by (simp add: run_simps)
qed

theorem empty_content_aborts_witness:
  "find is_post_file (files intro_pull) = Some \<lparr>filename = ''posts/0001-intro/README.md''\<rparr>
   \<and> snd (get_post_content (mock_github (file_contents []) intro_pull) intro_pull)
       = Inr (''posts/0001-intro/README.md'', [])
   \<and> snd (pr_reviewer_main
            \<lparr>github_token = ''ghp'', hf_token = ''hf'', repo_name = ''o/r'', pr_number = 7,
               model_id = ''m'', content_max_tokens = 8192\<rparr>
            (mock_github (file_contents []) intro_pull) (reply_client ''Nota: 8'')) = Inr ()
   \<and> filter is_chat_call (calls_of (fst (pr_reviewer_main
            \<lparr>github_token = ''ghp'', hf_token = ''hf'', repo_name = ''o/r'', pr_number = 7,
               model_id = ''m'', content_max_tokens = 8192\<rparr>
            (mock_github (file_contents []) intro_pull) (reply_client ''Nota: 8'')))) = []
   \<and> filter is_comment_call (calls_of (fst (pr_reviewer_main
            \<lparr>github_token = ''ghp'', hf_token = ''hf'', repo_name = ''o/r'', pr_number = 7,
               model_id = ''m'', content_max_tokens = 8192\<rparr>
            (mock_github (file_contents []) intro_pull) (reply_client ''Nota: 8'')))) = []"
  using empty_content_aborts
    [of "mock_github (file_contents []) intro_pull"
        "\<lparr>github_token = ''ghp'', hf_token = ''hf'', repo_name = ''o/r'', pr_number = 7,
           model_id = ''m'', content_max_tokens = 8192\<rparr>"
        intro_pull "\<lparr>filename = ''posts/0001-intro/README.md''\<rparr>" "reply_client ''Nota: 8''"]
  by (simp add: find_intro_pull mock_github_def file_contents_def)

section \<open>Properties of the reviewer's configuration\<close>

lemma py_int_7: "py_int ''7'' = Inr 7"
  by code_simp

lemma py_int_100: "py_int ''100'' = Inr 100"
  by code_simp

lemma py_int_abc: "py_int ''abc'' = Inl ValueError"
  by code_simp

text \<open>
  \<open>int()\<close> does not skip U+001C, which \<open>str.strip()\<close> removes; it skips U+00A0.
\<close>

lemma py_int_separator: "py_int [CHR 0x1C, CHR ''5''] = Inl ValueError"
  by code_simp

lemma py_int_no_break_space: "py_int [CHR 0xA0, CHR ''5'', CHR 0x0A] = Inr 5"
  by code_simp

text \<open>The two cases of the fallback, for every environment.\<close>

lemma CONTENT_MAX_TOKENS_missing:
  "env ''CONTENT_MAX_TOKENS'' = None \<Longrightarrow> CONTENT_MAX_TOKENS env = Inl TypeError"
  by (simp add: CONTENT_MAX_TOKENS_def py_int_opt_def)

lemma CONTENT_MAX_TOKENS_non_numeric:
  "env ''CONTENT_MAX_TOKENS'' = Some v \<Longrightarrow> py_int v = Inl ValueError \<Longrightarrow>
   CONTENT_MAX_TOKENS env = Inr 8192"
  by (simp add: CONTENT_MAX_TOKENS_def py_int_opt_def)

lemma startup_missing:
  "env ''CONTENT_MAX_TOKENS'' = None \<Longrightarrow> startup env \<noteq> Inr cfg"
  by (simp add: startup_def CONTENT_MAX_TOKENS_missing split: sum.splits)

text \<open>The budget read at start-up has no effect on the review run.\<close>

lemma pr_reviewer_main_ignores_budget:
  "pr_reviewer_main (cfg\<lparr>content_max_tokens := n\<rparr>) gh client = pr_reviewer_main cfg gh client"
  by (simp add: pr_reviewer_main_def Let_def cong: if_cong)

lemma startup_budget_100:
  "startup (mock_environ(''CONTENT_MAX_TOKENS'' \<mapsto> ''100'')) =
     Inr \<lparr>github_token = ''ghp'', hf_token = ''hf'', repo_name = ''o/r'', pr_number = 7,
          model_id = ''deepseek-ai/DeepSeek-V3-0324'', content_max_tokens = 100\<rparr>"
  by (simp add: startup_def GITHUB_TOKEN_def HF_TOKEN_def REPO_NAME_def PR_NUMBER_def
        CONTENT_MAX_TOKENS_def reviewer_MODEL_ID_def environ_item_def py_int_opt_def
        mock_environ_def py_int_7 py_int_100)

text \<open>
  C7. The post content embedded in the inference prompt is the content truncated to the
  configured budget, the value of the environment override when supplied. The code
  departs from it: with \<open>CONTENT_MAX_TOKENS=100\<close> in the environment and a post of 200
  characters, the prompt of the one inference call embeds all 200 characters.
\<close>

theorem review_prompt_exceeds_budget:
  "CONTENT_MAX_TOKENS (mock_environ(''CONTENT_MAX_TOKENS'' \<mapsto> ''100'')) = Inr 100
   \<and> filter is_chat_call (calls_of (fst (pr_reviewer_script
        (mock_environ(''CONTENT_MAX_TOKENS'' \<mapsto> ''100''))
        (mock_github (file_contents (replicate 200 CHR ''a'')) intro_pull)
        (reply_client ''Nota: 8'')))) =
     [ChatCompletion
        \<lparr>req_model = ''deepseek-ai/DeepSeek-V3-0324'',
         req_content = REVIEW_PROMPT_format (replicate 200 CHR ''a''),
         req_max_tokens = 8192, req_temperature = ''0.3''\<rparr>]
   \<and> length (replicate 200 CHR ''a'') = 200"
proof -
  have budget: "CONTENT_MAX_TOKENS (mock_environ(''CONTENT_MAX_TOKENS'' \<mapsto> ''100'')) = Inr 100"
    by (simp add: CONTENT_MAX_TOKENS_def py_int_opt_def py_int_100)
  have sel: "get_post_content (mock_github (file_contents (replicate 200 CHR ''a'')) intro_pull)
        intro_pull =
      ([Call GetFiles, Call (GetContents ''posts/0001-intro/README.md'' (Some ''beef''))],
       Inr (''posts/0001-intro/README.md'', replicate 200 CHR ''a''))"
    using get_post_content_some [OF find_intro_pull,
        of "mock_github (file_contents (replicate 200 CHR ''a'')) intro_pull"]
    by (simp add: mock_github_def file_contents_def) (simp add: intro_pull_def)
  have pull: "get_pull (mock_github (file_contents (replicate 200 CHR ''a'')) intro_pull) 7
      = Inr intro_pull"
    by (simp add: mock_github_def)
  have run: "filter is_chat_call (calls_of (fst (pr_reviewer_main
        \<lparr>github_token = ''ghp'', hf_token = ''hf'', repo_name = ''o/r'', pr_number = 7,
           model_id = ''deepseek-ai/DeepSeek-V3-0324'', content_max_tokens = 100\<rparr>
        (mock_github (file_contents (replicate 200 CHR ''a'')) intro_pull)
        (reply_client ''Nota: 8'')))) =
     [ChatCompletion
        \<lparr>req_model = ''deepseek-ai/DeepSeek-V3-0324'',
         req_content = REVIEW_PROMPT_format (replicate 200 CHR ''a''),
         req_max_tokens = 8192, req_temperature = ''0.3''\<rparr>]"
    by (simp add: pr_reviewer_main_def pull sel run_simps Let_def first_content_def
          post_review_comment_def reply_client_def calls_of_append)
      (simp add: mock_github_def run_simps)
  show ?thesis
    by (simp add: budget pr_reviewer_script_def startup_budget_100 run)
qed

text \<open>
  C8. When the optional variable \<open>CONTENT_MAX_TOKENS\<close> is missing, or holds a
  non-numeric value, the start-up succeeds with the budget 8192. The code departs from
  the first case: in the environment with the required variables only, \<open>int(None)\<close>
  raises \<open>TypeError\<close>, which the handler for \<open>ValueError\<close> does not catch, and the script
  ends before \<open>main()\<close> with no call and no output.
\<close>

theorem startup_fails_without_budget:
  "startup mock_environ = Inl TypeError
   \<and> pr_reviewer_script mock_environ gh client = ([], Inl TypeError)"
proof -
  have "startup mock_environ = Inl TypeError"
    by (simp add: startup_def GITHUB_TOKEN_def HF_TOKEN_def REPO_NAME_def PR_NUMBER_def
          CONTENT_MAX_TOKENS_def environ_item_def py_int_opt_def mock_environ_def py_int_7)
  then show ?thesis
    by (simp add: pr_reviewer_script_def raise_def)
qed

text \<open>With a non-numeric value the start-up succeeds, with the budget 8192.\<close>

lemma startup_non_numeric_budget:
  "startup (mock_environ(''CONTENT_MAX_TOKENS'' \<mapsto> ''abc'')) =
     Inr \<lparr>github_token = ''ghp'', hf_token = ''hf'', repo_name = ''o/r'', pr_number = 7,
          model_id = ''deepseek-ai/DeepSeek-V3-0324'', content_max_tokens = 8192\<rparr>"
  by (simp add: startup_def GITHUB_TOKEN_def HF_TOKEN_def REPO_NAME_def PR_NUMBER_def
        CONTENT_MAX_TOKENS_def reviewer_MODEL_ID_def environ_item_def py_int_opt_def
        mock_environ_def py_int_7 py_int_abc)

section \<open>Properties of get\_existing\_posts\<close>

lemma snd_prepend: "snd (prepend t m) = snd m"
  by (simp add: prepend_def)

lemma prints_of_prepend: "prints_of (fst (prepend t m)) = prints_of t @ prints_of (fst m)"
  by (simp add: prepend_def prints_of_append)

lemma read_post_trace: "fst (read_post gh safe_load it) = [Call (GetContents (post_path it) None)]"
  by (simp add: read_post_def bind_run_def call_def ret_def raise_def prepend_def
        split: sum.splits contents.splits yaml_value.splits)

lemma read_post_lacking:
  "lacks_document gh it \<Longrightarrow>
   read_post gh safe_load it = ([Call (GetContents (post_path it) None)], Inl GithubException)"
  by (simp add: lacks_document_def read_post_def run_simps)

text \<open>The loop prints nothing.\<close>

lemma posts_loop_prints: "prints_of (fst (posts_loop gh safe_load items posts)) = []"
proof (induction items arbitrary: posts)
  case Nil
  show ?case by (simp add: run_simps)
next
  case (Cons it items)
  obtain t r where rp: "read_post gh safe_load it = (t, r)"
    by (cases "read_post gh safe_load it")
  with read_post_trace [of gh safe_load it] have t: "prints_of t = []"
    by (simp add: run_simps)
  show ?case
    using Cons.IH t
    by (simp add: rp prints_of_prepend split: sum.splits error.splits)
qed

text \<open>A subdirectory that lacks the document leaves the returned value as it is without it.\<close>

lemma posts_loop_skip:
  "snd (posts_loop gh safe_load items posts) =
   snd (posts_loop gh safe_load (filter (\<lambda>it. \<not> lacks_document gh it) items) posts)"
proof (induction items arbitrary: posts)
  case Nil
  show ?case by simp
next
  case (Cons it items)
  show ?case
  proof (cases "lacks_document gh it")
    case True
    then have "item_type it = ''dir''"
      by (simp add: lacks_document_def)
    with True show ?thesis
      by (simp add: read_post_lacking snd_prepend Cons.IH)
  next
    case False
    obtain t r where rp: "read_post gh safe_load it = (t, r)"
      by (cases "read_post gh safe_load it")
    from False show ?thesis
      by (simp add: rp snd_prepend Cons.IH split: sum.splits error.splits)
  qed
qed

lemma posts_loop_cong:
  "(\<forall>it\<in>set items. get_contents gh' (post_path it) None = get_contents gh (post_path it) None)
   \<Longrightarrow> posts_loop gh' safe_load items posts = posts_loop gh safe_load items posts"
proof (induction items arbitrary: posts)
  case Nil
  show ?case by simp
next
  case (Cons it items)
  from Cons.prems have "read_post gh' safe_load it = read_post gh safe_load it"
    by (simp add: read_post_def)
  moreover from Cons have "posts_loop gh' safe_load items ps = posts_loop gh safe_load items ps"
    for ps
    by simp
  ultimately show ?case by simp
qed

lemma post_path_not_root: "post_path it \<noteq> POSTS_DIR"
  by (simp add: post_path_def)

lemma with_listing_contents:
  "get_contents (with_listing gh items) POSTS_DIR None = Inr (ContentDir items)"
  "get_contents (with_listing gh items) (post_path it) None = get_contents gh (post_path it) None"
  by (simp_all add: with_listing_def post_path_not_root)

lemma get_existing_posts_listing:
  "get_contents gh POSTS_DIR None = Inr (ContentDir items) \<Longrightarrow>
   get_existing_posts gh safe_load =
     prepend [Call (GetContents POSTS_DIR None)] (posts_loop gh safe_load (sort_key name items) [])"
  by (simp add: get_existing_posts_def call_def)

text \<open>
  C9. When the posts root is absent, \<open>get_existing_posts\<close> prints a warning and returns
  the empty list, no exception, so that the run goes on with zero posts. When the posts
  root is listed, nothing is printed, and the returned value is the one for the listing
  without the subdirectories that lack the document: each of them is skipped without an
  error and without an effect on the other entries.
\<close>

theorem get_existing_posts_benign_absence:
  "(get_contents gh POSTS_DIR None = Inl GithubException \<longrightarrow>
      snd (get_existing_posts gh safe_load) = Inr []
      \<and> prints_of (fst (get_existing_posts gh safe_load)) =
          [''  '' @ [CHR 0xE2, CHR 0x9A, CHR 0xA0, CHR 0xEF, CHR 0xB8, CHR 0x8F] @
           ''  Diret'' @ [CHR 0xF3] @ ''rio '' @ [CHR 0x27] @ ''posts'' @
           [CHR 0x27] @ '' n'' @ [CHR 0xE3] @ ''o encontrado. Iniciando do zero.''])
   \<and> (get_contents gh POSTS_DIR None = Inr (ContentDir items) \<longrightarrow>
      prints_of (fst (get_existing_posts gh safe_load)) = []
      \<and> snd (get_existing_posts gh safe_load) =
          snd (get_existing_posts
                 (with_listing gh (filter (\<lambda>it. \<not> lacks_document gh it) items)) safe_load))"
proof -
  have a: "snd (get_existing_posts gh safe_load) = Inr []
      \<and> prints_of (fst (get_existing_posts gh safe_load)) =
          [''  '' @ [CHR 0xE2, CHR 0x9A, CHR 0xA0, CHR 0xEF, CHR 0xB8, CHR 0x8F] @
           ''  Diret'' @ [CHR 0xF3] @ ''rio '' @ [CHR 0x27] @ ''posts'' @
           [CHR 0x27] @ '' n'' @ [CHR 0xE3] @ ''o encontrado. Iniciando do zero.'']"
    if "get_contents gh POSTS_DIR None = Inl GithubException"
    using that by (simp add: get_existing_posts_def call_def run_simps POSTS_DIR_def)
  have b: "prints_of (fst (get_existing_posts gh safe_load)) = []
      \<and> snd (get_existing_posts gh safe_load) =
          snd (get_existing_posts
                 (with_listing gh (filter (\<lambda>it. \<not> lacks_document gh it) items)) safe_load)"
    if l: "get_contents gh POSTS_DIR None = Inr (ContentDir items)"
  proof -
    let ?kept = "filter (\<lambda>it. \<not> lacks_document gh it) items"
    have "snd (get_existing_posts (with_listing gh ?kept) safe_load) =
          snd (posts_loop (with_listing gh ?kept) safe_load (sort_key name ?kept) [])"
      by (simp add: get_existing_posts_listing [OF with_listing_contents(1)] snd_prepend)
    also have "\<dots> = snd (posts_loop gh safe_load (sort_key name ?kept) [])"
      by (rule arg_cong [where f = snd], rule posts_loop_cong)
        (simp add: with_listing_contents(2))
    also have "\<dots> = snd (posts_loop gh safe_load
                           (filter (\<lambda>it. \<not> lacks_document gh it) (sort_key name items)) [])"
      by (simp add: filter_sort)
    also have "\<dots> = snd (posts_loop gh safe_load (sort_key name items) [])"
      by (rule posts_loop_skip [symmetric])
    also have "\<dots> = snd (get_existing_posts gh safe_load)"
      by (simp add: get_existing_posts_listing [OF l] snd_prepend)
    finally have "snd (get_existing_posts gh safe_load) =
          snd (get_existing_posts (with_listing gh ?kept) safe_load)"
      by simp
    moreover have "prints_of (fst (get_existing_posts gh safe_load)) = []"
      by (simp add: get_existing_posts_listing [OF l] prints_of_prepend posts_loop_prints
            run_simps)
    ultimately show ?thesis by simp
  qed
  from a b show ?thesis by blast
qed


lemma sort_listing:
  "sort_key name [\<lparr>name = ''0002-b'', item_type = ''dir''\<rparr>,
                  \<lparr>name = ''0001-a'', item_type = ''dir''\<rparr>,
                  \<lparr>name = ''index.md'', item_type = ''file''\<rparr>] =
     [\<lparr>name = ''0001-a'', item_type = ''dir''\<rparr>,
      \<lparr>name = ''0002-b'', item_type = ''dir''\<rparr>,
      \<lparr>name = ''index.md'', item_type = ''file''\<rparr>]"
  by code_simp

lemma str_split_title:
  "str_split ''---\<newline>title: A\<newline>---\<newline>Texto'' ''---'' 2 =
     ['''', ''\<newline>title: A\<newline>'', ''\<newline>Texto'']"
  by (simp add: numeral_2_eq_2 startswith_def)

lemma get_existing_posts_listing_contents:
  "get_existing_posts (mock_github listing_contents no_pull) mock_safe_load =
     ([Call (GetContents ''posts'' None),
       Call (GetContents ''posts/0001-a/README.md'' None),
       Call (GetContents ''posts/0002-b/README.md'' None)],
      Inr [\<lparr>dirname = ''0001-a'', title = YStr ''A'', tags = YList [], categories = YList [],
             description = YStr []\<rparr>])"
proof -
  have l: "get_contents (mock_github listing_contents no_pull) POSTS_DIR None =
      Inr (ContentDir [\<lparr>name = ''0002-b'', item_type = ''dir''\<rparr>,
                       \<lparr>name = ''0001-a'', item_type = ''dir''\<rparr>,
                       \<lparr>name = ''index.md'', item_type = ''file''\<rparr>])"
    by (simp add: mock_github_def listing_contents_def POSTS_DIR_def)
  have first: "read_post (mock_github listing_contents no_pull) mock_safe_load
        \<lparr>name = ''0001-a'', item_type = ''dir''\<rparr> =
      ([Call (GetContents ''posts/0001-a/README.md'' None)],
       Inr \<lparr>dirname = ''0001-a'', title = YStr ''A'', tags = YList [], categories = YList [],
            description = YStr []\<rparr>)"
    by (simp add: read_post_def post_path_def POSTS_DIR_def POST_FILENAME_def mock_github_def
          listing_contents_def run_simps parse_frontmatter_def Let_def str_split_title
          mock_safe_load_def startswith_def dict_get_def)
  have second: "read_post (mock_github listing_contents no_pull) mock_safe_load
        \<lparr>name = ''0002-b'', item_type = ''dir''\<rparr> =
      ([Call (GetContents ''posts/0002-b/README.md'' None)], Inl GithubException)"
    by (simp add: read_post_def post_path_def POSTS_DIR_def POST_FILENAME_def mock_github_def
          listing_contents_def run_simps)
  show ?thesis
    by (simp only: get_existing_posts_listing [OF l] sort_listing)
      (simp add: first second run_simps POSTS_DIR_def)
qed

theorem get_existing_posts_benign_absence_witness:
  "snd (get_existing_posts (mock_github no_contents no_pull) mock_safe_load) = Inr []
   \<and> length (prints_of (fst (get_existing_posts (mock_github no_contents no_pull) mock_safe_load)))
       = 1
   \<and> lacks_document (mock_github listing_contents no_pull) \<lparr>name = ''0002-b'', item_type = ''dir''\<rparr>
   \<and> snd (get_existing_posts (mock_github listing_contents no_pull) mock_safe_load) =
       Inr [\<lparr>dirname = ''0001-a'', title = YStr ''A'', tags = YList [], categories = YList [],
              description = YStr []\<rparr>]
   \<and> snd (get_existing_posts
            (with_listing (mock_github listing_contents no_pull)
               [\<lparr>name = ''0001-a'', item_type = ''dir''\<rparr>,
                \<lparr>name = ''index.md'', item_type = ''file''\<rparr>]) mock_safe_load) =
       Inr [\<lparr>dirname = ''0001-a'', title = YStr ''A'', tags = YList [], categories = YList [],
              description = YStr []\<rparr>]"
proof -
  have absent: "get_contents (mock_github no_contents no_pull) POSTS_DIR None = Inl GithubException"
    by (simp add: mock_github_def no_contents_def)
  have a: "snd (get_existing_posts (mock_github no_contents no_pull) mock_safe_load) = Inr []
    \<and> length (prints_of (fst (get_existing_posts (mock_github no_contents no_pull) mock_safe_load)))
        = 1"
    using get_existing_posts_benign_absence
      [of "mock_github no_contents no_pull" mock_safe_load "[]"] absent
    by simp
  have l: "get_contents (mock_github listing_contents no_pull) POSTS_DIR None =
      Inr (ContentDir [\<lparr>name = ''0002-b'', item_type = ''dir''\<rparr>,
                       \<lparr>name = ''0001-a'', item_type = ''dir''\<rparr>,
                       \<lparr>name = ''index.md'', item_type = ''file''\<rparr>])"
    by (simp add: mock_github_def listing_contents_def POSTS_DIR_def)
  have lacks: "lacks_document (mock_github listing_contents no_pull)
      \<lparr>name = ''0002-b'', item_type = ''dir''\<rparr>"
    "\<not> lacks_document (mock_github listing_contents no_pull)
      \<lparr>name = ''0001-a'', item_type = ''dir''\<rparr>"
    "\<not> lacks_document (mock_github listing_contents no_pull)
      \<lparr>name = ''index.md'', item_type = ''file''\<rparr>"
    by (simp_all add: lacks_document_def mock_github_def listing_contents_def post_path_def
          POSTS_DIR_def POST_FILENAME_def)
  have b: "snd (get_existing_posts
            (with_listing (mock_github listing_contents no_pull)
               [\<lparr>name = ''0001-a'', item_type = ''dir''\<rparr>,
                \<lparr>name = ''index.md'', item_type = ''file''\<rparr>]) mock_safe_load) =
       Inr [\<lparr>dirname = ''0001-a'', title = YStr ''A'', tags = YList [], categories = YList [],
              description = YStr []\<rparr>]"
    using get_existing_posts_benign_absence
      [of "mock_github listing_contents no_pull" mock_safe_load
          "[\<lparr>name = ''0002-b'', item_type = ''dir''\<rparr>,
            \<lparr>name = ''0001-a'', item_type = ''dir''\<rparr>,
            \<lparr>name = ''index.md'', item_type = ''file''\<rparr>]"] l
    by (simp add: lacks get_existing_posts_listing_contents)
  from a b lacks(1) get_existing_posts_listing_contents show ?thesis by simp
qed

end
